theory Spec2Isabelle
  imports Complex_Main "HOL-Library.Sublist" "HOL-Library.Multiset"
begin

section \<open>Data model\<close>

text \<open>
  Integer tensors (token ids, attention masks) are nested lists of \<open>int\<close>. A float32
  tensor is a nested list of \<open>tfloat\<close>: \<open>Some x\<close> is the finite value \<open>x\<close>, \<open>None\<close> is a
  value that is not finite (\<open>inf\<close>, \<open>-inf\<close> or \<open>nan\<close>). In the pooler every arithmetic
  result is rounded to float32 and overflows to \<open>None\<close>; a non-finite operand gives a
  non-finite result in every operation the pooler performs. The embeddings handed to
  the loss and the arithmetic of the evaluation metrics are over the real numbers.
\<close>

type_synonym itensor2 = "int list list"
type_synonym tensor2 = "real list list"
type_synonym tfloat = "real option"
type_synonym ftensor2 = "tfloat list list"
type_synonym tensor3 = "tfloat list list list"

datatype error =
    AssertionError string
  | NotImplementedError
  | IndexError string
  | RuntimeError string
  | UnboundLocalError string
  | AttributeError string

definition tdiv :: "real \<Rightarrow> real \<Rightarrow> tfloat" where
  "tdiv x y = (if y = 0 then None else Some (x / y))"

text \<open>Python's \<open>xs[i]\<close> on a tuple or list: negative indices count from the end.\<close>

definition getitem :: "'a list \<Rightarrow> int \<Rightarrow> error + 'a" where
  "getitem xs i =
     (if 0 \<le> i \<and> i < int (length xs) then Inr (xs ! nat i)
      else if i < 0 \<and> - int (length xs) \<le> i then Inr (xs ! nat (int (length xs) + i))
      else Inl (IndexError ''tuple index out of range''))"

text \<open>
  The shapes \<open>[N, L]\<close> and \<open>[N, L, D]\<close> of a nested list. A torch tensor is always
  rectangular; a nested list need not be, so the theorems about shaped tensors say so.
\<close>

definition shape2 :: "nat \<Rightarrow> nat \<Rightarrow> 'a list list \<Rightarrow> bool" where
  "shape2 N L t \<longleftrightarrow> length t = N \<and> list_all (\<lambda>row. length row = L) t"

definition shape3 :: "nat \<Rightarrow> nat \<Rightarrow> nat \<Rightarrow> 'a list list list \<Rightarrow> bool" where
  "shape3 N L D t \<longleftrightarrow> length t = N \<and> list_all (shape2 L D) t"

section \<open>Float32 arithmetic\<close>

text \<open>
  The hidden states of the backbone are float32 tensors (the output of its layer
  normalisation), and torch computes a float32 tensor with an integer tensor or a
  Python number in float32. \<open>round32\<close> is IEEE 754 binary32 rounding to nearest, ties
  to even: 24 bits of significand, least normal exponent \<open>-126\<close>, largest finite value
  \<open>fmax32\<close>; a result beyond it is infinite. The sign of a zero is not modelled.
\<close>

definition fmax32 :: real where
  "fmax32 = (2 - 1 / 2 ^ 23) * 2 ^ 127"

definition fexp32 :: "real \<Rightarrow> int" where
  "fexp32 x = max \<lfloor>log 2 \<bar>x\<bar>\<rfloor> (- 126)"

definition ulp32 :: "real \<Rightarrow> real" where
  "ulp32 x = 2 powr (of_int (fexp32 x) - 23)"

definition rne :: "real \<Rightarrow> int" where
  "rne y =
     (if y - of_int \<lfloor>y\<rfloor> < 1 / 2 then \<lfloor>y\<rfloor>
      else if 1 / 2 < y - of_int \<lfloor>y\<rfloor> then \<lfloor>y\<rfloor> + 1
      else if even \<lfloor>y\<rfloor> then \<lfloor>y\<rfloor> else \<lfloor>y\<rfloor> + 1)"

definition round32 :: "real \<Rightarrow> tfloat" where
  "round32 x =
     (if x = 0 then Some 0
      else if fmax32 < \<bar>ulp32 x * of_int (rne (x / ulp32 x))\<bar> then None
      else Some (ulp32 x * of_int (rne (x / ulp32 x))))"

text \<open>The finite float32 values are the real numbers that rounding leaves alone.\<close>

definition is_f32 :: "real \<Rightarrow> bool" where
  "is_f32 x \<longleftrightarrow> round32 x = Some x"

definition f32_entry :: "tfloat \<Rightarrow> bool" where
  "f32_entry a = (case a of None \<Rightarrow> True | Some x \<Rightarrow> is_f32 x)"

definition f32_tensor :: "tensor3 \<Rightarrow> bool" where
  "f32_tensor t = list_all (list_all (list_all f32_entry)) t"

text \<open>An entry whose double is still a finite float32 value, and a tensor of such entries.\<close>

definition double_fits :: "tfloat \<Rightarrow> bool" where
  "double_fits a = (case a of None \<Rightarrow> True | Some x \<Rightarrow> is_f32 x \<and> \<bar>2 * x\<bar> \<le> fmax32)"

definition doubles_fit :: "tensor3 \<Rightarrow> bool" where
  "doubles_fit t = list_all (list_all (list_all double_fits)) t"

definition fadd :: "tfloat \<Rightarrow> tfloat \<Rightarrow> tfloat" where
  "fadd a b =
     (case a of None \<Rightarrow> None
      | Some x \<Rightarrow> (case b of None \<Rightarrow> None | Some y \<Rightarrow> round32 (x + y)))"

definition fmul :: "tfloat \<Rightarrow> tfloat \<Rightarrow> tfloat" where
  "fmul a b =
     (case a of None \<Rightarrow> None
      | Some x \<Rightarrow> (case b of None \<Rightarrow> None | Some y \<Rightarrow> round32 (x * y)))"

text \<open>
  Division by a finite divisor (in the pooler: a token count or the number 2): a zero
  divisor gives \<open>inf\<close> or \<open>nan\<close>.
\<close>

definition fdiv :: "tfloat \<Rightarrow> tfloat \<Rightarrow> tfloat" where
  "fdiv a b =
     (case a of None \<Rightarrow> None
      | Some x \<Rightarrow> (case b of None \<Rightarrow> None
                  | Some y \<Rightarrow> if y = 0 then None else round32 (x / y)))"

text \<open>The conversion of an integer entry (of the mask, of a count) to float32.\<close>

definition f32_of_int :: "int \<Rightarrow> tfloat" where
  "f32_of_int n = round32 (of_int n)"

text \<open>
  \<open>draw > rate\<close> for a float32 draw and a Python number: torch converts the number to
  float32 and compares there (a number too large for float32 becomes an infinity).
\<close>

definition gt_scalar :: "real \<Rightarrow> real \<Rightarrow> bool" where
  "gt_scalar draw rate = (case round32 rate of Some r \<Rightarrow> r < draw | None \<Rightarrow> rate < 0)"

section \<open>Broadcasting\<close>

text \<open>
  An elementwise operation along one axis of two tensors: the sizes agree, or one of
  them is one and that entry is used throughout; otherwise torch raises. The operation
  on the entries (the next axis) may raise in turn, and the first error is the result.
\<close>

fun sequence_err :: "(error + 'a) list \<Rightarrow> error + 'a list" where
  "sequence_err [] = Inr []"
| "sequence_err (x # xs) =
     (case x of
        Inl e \<Rightarrow> Inl e
      | Inr y \<Rightarrow> (case sequence_err xs of Inl e \<Rightarrow> Inl e | Inr ys \<Rightarrow> Inr (y # ys)))"

definition broadcast :: "('a \<Rightarrow> 'b \<Rightarrow> error + 'c) \<Rightarrow> 'a list \<Rightarrow> 'b list \<Rightarrow> error + 'c list" where
  "broadcast f xs ys =
     (if length xs = length ys then sequence_err (map2 f xs ys)
      else if length ys = 1 then sequence_err (map (\<lambda>x. f x (hd ys)) xs)
      else if length xs = 1 then sequence_err (map (f (hd xs)) ys)
      else Inl (RuntimeError ''The size of tensor a must match the size of tensor b''))"

section \<open>Pooler\<close>

text \<open>
  What the backbone returns (\<open>outputs\<close> in \<open>Pooler.forward\<close>): the last layer's hidden
  states \<open>[N, L, D]\<close>, the backbone's own pooled output (\<open>None\<close> when the outputs of the
  backbone have no such attribute), and the tuple of per-layer hidden states. A tensor
  keeps the size \<open>D\<close> of its last axis when it has no tokens; a nested list does not, so
  the size of the last axis of the hidden states is recorded beside them (\<open>hidden_size\<close>).
\<close>

record bert_outputs =
  last_hidden_state :: tensor3
  pooler_output :: "tensor2 option"
  hidden_states :: "tensor3 list"
  hidden_size :: nat

record pooler =
  pooler_type :: string

text \<open>
  \<open>Pooler.__init__\<close>: the \<open>assert\<close> on the pooler type, with its message. The source is
  modelled as run by the interpreter with assertions enabled (its default).
\<close>

definition Pooler_init :: "string \<Rightarrow> error + pooler" where
  "Pooler_init pt =
     (if pt \<in> set [''cls'', ''cls_before_pooler'', ''avg'', ''avg_top2'', ''avg_first_last'']
      then Inr \<lparr>pooler_type = pt\<rparr>
      else Inl (AssertionError (''unrecognized_pooling_type: '' @ pt)))"

text \<open>\<open>last_hidden[:, 0]\<close>: the first token's vector of every example.\<close>

definition select_first :: "tensor3 \<Rightarrow> error + ftensor2" where
  "select_first t =
     (if list_ex (\<lambda>row. row = []) t
      then Inl (IndexError ''index 0 is out of bounds for dimension 1 with size 0'')
      else Inr (map hd t))"

text \<open>
  \<open>hidden * attention_mask.unsqueeze(-1)\<close>: shapes \<open>[N, L, D]\<close> and \<open>[N, L, 1]\<close>,
  broadcast along the first two axes; every token vector is multiplied by its mask
  entry, converted to float32.
\<close>

definition mul_mask :: "tensor3 \<Rightarrow> itensor2 \<Rightarrow> error + tensor3" where
  "mul_mask h m =
     broadcast (broadcast (\<lambda>v x. Inr (map (\<lambda>a. fmul a (f32_of_int x)) v))) h m"

text \<open>
  \<open>.sum(1)\<close>: the float32 sum of the token vectors of one example, \<open>D\<close> zeros when the
  example has no tokens. torch does not fix the order of the additions; the model adds
  the tokens in sequence order.
\<close>

definition vsum :: "nat \<Rightarrow> tfloat list list \<Rightarrow> tfloat list" where
  "vsum D vs = (case vs of [] \<Rightarrow> replicate D (Some 0) | v # ws \<Rightarrow> foldl (map2 fadd) v ws)"

definition sum_dim1 :: "nat \<Rightarrow> tensor3 \<Rightarrow> ftensor2" where
  "sum_dim1 D t = map (vsum D) t"

text \<open>
  \<open>attention_mask.sum(-1)\<close>: the number of unmasked tokens of every example, an
  integer sum (the entries of a mask are 0 and 1, and the sum is far below the range
  of a 64-bit integer).
\<close>

definition mask_count :: "itensor2 \<Rightarrow> int list" where
  "mask_count m = map sum_list m"

text \<open>
  \<open>num / den.unsqueeze(-1)\<close>: shapes \<open>[N, D]\<close> and \<open>[N, 1]\<close>, broadcast along the first
  axis; every row is divided by its count, converted to float32.
\<close>

definition div_rows :: "ftensor2 \<Rightarrow> int list \<Rightarrow> error + ftensor2" where
  "div_rows num den = broadcast (\<lambda>v s. Inr (map (\<lambda>a. fdiv a (f32_of_int s)) v)) num den"

text \<open>
  The mask-weighted mean shared by the three averaging variants:
  \<open>(hidden * attention_mask.unsqueeze(-1)).sum(1) / attention_mask.sum(-1).unsqueeze(-1)\<close>.
\<close>

definition masked_mean :: "nat \<Rightarrow> tensor3 \<Rightarrow> itensor2 \<Rightarrow> error + ftensor2" where
  "masked_mean D h m =
     (case mul_mask h m of
        Inl e \<Rightarrow> Inl e
      | Inr hm \<Rightarrow> div_rows (sum_dim1 D hm) (mask_count m))"

text \<open>\<open>(a + b) / 2.0\<close> on two hidden-state tensors, broadcast along every axis.\<close>

definition add3 :: "tensor3 \<Rightarrow> tensor3 \<Rightarrow> error + tensor3" where
  "add3 a b = broadcast (broadcast (broadcast (\<lambda>x y. Inr (fadd x y)))) a b"

definition half3 :: "tensor3 \<Rightarrow> tensor3" where
  "half3 t = map (map (map (\<lambda>x. fdiv x (Some 2)))) t"

text \<open>
  \<open>Pooler.forward\<close>: the three attributes of \<open>outputs\<close> are read first (reading
  \<open>pooler_output\<close> raises when the outputs have no such attribute), then the branches
  follow in the order of the source.
\<close>

definition Pooler_forward :: "pooler \<Rightarrow> itensor2 \<Rightarrow> bert_outputs \<Rightarrow> error + ftensor2" where
  "Pooler_forward self attention_mask outputs =
     (if pooler_output outputs = None
      then Inl (AttributeError ''pooler_output'')
      else if pooler_type self \<in> set [''cls_before_pooler'', ''cls'']
      then select_first (last_hidden_state outputs)
      else if pooler_type self = ''avg''
      then masked_mean (hidden_size outputs) (last_hidden_state outputs) attention_mask
      else if pooler_type self = ''avg_first_last''
      then (case getitem (hidden_states outputs) 0 of
              Inl e \<Rightarrow> Inl e
            | Inr first_hidden \<Rightarrow>
               (case getitem (hidden_states outputs) (- 1) of
                  Inl e \<Rightarrow> Inl e
                | Inr last_hidden \<Rightarrow>
                   (case add3 first_hidden last_hidden of
                      Inl e \<Rightarrow> Inl e
                    | Inr s \<Rightarrow> masked_mean (hidden_size outputs) (half3 s) attention_mask)))
      else if pooler_type self = ''avg_top2''
      then (case getitem (hidden_states outputs) (- 2) of
              Inl e \<Rightarrow> Inl e
            | Inr second_last_hidden \<Rightarrow>
               (case getitem (hidden_states outputs) (- 1) of
                  Inl e \<Rightarrow> Inl e
                | Inr last_hidden \<Rightarrow>
                   (case add3 last_hidden second_last_hidden of
                      Inl e \<Rightarrow> Inl e
                    | Inr s \<Rightarrow> masked_mean (hidden_size outputs) (half3 s) attention_mask)))
      else Inl NotImplementedError)"

section \<open>Projection head\<close>

text \<open>
  \<open>MLPLayer.__init__\<close> builds the list of layers handed to \<open>nn.Sequential\<close>. The layers
  are torch's own modules; the model records which ones are built, in order. Their
  constructors allocate the weights and raise on a negative size. The \<open>if/elif\<close>
  chain over the activation name has no \<open>else\<close>: for any other name the local
  \<open>activation_fn\<close> stays unbound (\<open>None\<close> below), and reading it in the list literal
  raises \<open>UnboundLocalError\<close>, after the first two layers have been built.
\<close>

datatype activation = GELU | ReLU | Mish | LeakyReLU

datatype layer = Linear int int | LayerNorm int | Activation activation

record mlp_layer =
  mlp_net :: "layer list"

definition nn_Linear :: "int \<Rightarrow> int \<Rightarrow> error + layer" where
  "nn_Linear in_features out_features =
     (if in_features < 0 \<or> out_features < 0
      then Inl (RuntimeError ''Trying to create tensor with negative dimension'')
      else Inr (Linear in_features out_features))"

definition nn_LayerNorm :: "int \<Rightarrow> error + layer" where
  "nn_LayerNorm normalized_shape =
     (if normalized_shape < 0
      then Inl (RuntimeError ''Trying to create tensor with negative dimension'')
      else Inr (LayerNorm normalized_shape))"

text \<open>One pass of the loop: \<open>[nn.Linear(a, b), nn.LayerNorm(b), activation_fn]\<close>.\<close>

definition mlp_block :: "activation \<Rightarrow> int \<Rightarrow> int \<Rightarrow> error + layer list" where
  "mlp_block f a b =
     (case nn_Linear a b of
        Inl e \<Rightarrow> Inl e
      | Inr l \<Rightarrow> (case nn_LayerNorm b of Inl e \<Rightarrow> Inl e | Inr n \<Rightarrow> Inr [l, n, Activation f]))"

definition MLPLayer_init :: "int \<Rightarrow> int list \<Rightarrow> string \<Rightarrow> error + mlp_layer" where
  "MLPLayer_init in_dims hidden_dims activation =
     (let activation_fn =
           (if activation = ''GELU'' then Some GELU
            else if activation = ''ReLU'' then Some ReLU
            else if activation = ''mish'' then Some Mish
            else if activation = ''leaky_relu'' then Some LeakyReLU
            else None)
      in case hidden_dims of
           [] \<Rightarrow> Inl (IndexError ''list index out of range'')
         | h0 # _ \<Rightarrow>
            (case nn_Linear in_dims h0 of Inl e \<Rightarrow> Inl e
             | Inr l0 \<Rightarrow>
            (case nn_LayerNorm h0 of Inl e \<Rightarrow> Inl e
             | Inr n0 \<Rightarrow>
            (case activation_fn of
               None \<Rightarrow> Inl (UnboundLocalError ''activation_fn'')
             | Some f \<Rightarrow>
                (case sequence_err
                        (map (\<lambda>i. mlp_block f (hidden_dims ! (i - 1)) (hidden_dims ! i))
                             [1..<length hidden_dims]) of
                   Inl e \<Rightarrow> Inl e
                 | Inr blocks \<Rightarrow>
                    Inr \<lparr>mlp_net = [l0, n0, Activation f] @ concat blocks\<rparr>)))))"

text \<open>
  \<open>MLPLayer.forward\<close> runs \<open>nn.Sequential\<close> over the layers. What the layers compute
  (their weights, torch's kernels) is outside the repository: it is the parameter
  \<open>sequential\<close>, which may raise as torch does on a shape it cannot multiply.
\<close>

type_synonym sequential = "layer list \<Rightarrow> ftensor2 \<Rightarrow> error + ftensor2"

definition MLPLayer_forward :: "sequential \<Rightarrow> mlp_layer \<Rightarrow> ftensor2 \<Rightarrow> error + ftensor2" where
  "MLPLayer_forward sequential self x = sequential (mlp_net self) x"

section \<open>Encoder\<close>

text \<open>
  The backbone (\<open>AutoModel\<close>) is outside the repository: it is a function of the token
  ids and the attention mask that returns its outputs or raises.
\<close>

type_synonym backbone = "itensor2 \<Rightarrow> itensor2 \<Rightarrow> error + bert_outputs"

record encoder =
  input_mask_rate :: real
  bert_model :: backbone
  encoder_pooler_type :: string
  encoder_pooler :: pooler
  net :: mlp_layer
  temp :: real
  hard_negative_weight :: real
  learning_rate :: real
  weight_decay :: real

text \<open>
  \<open>Encoder.__init__\<close>: the pooler is built from the pooler type (and may fail there),
  the projection head from \<open>mlp_layers\<close> with the default activation.
\<close>

definition Encoder_init ::
  "backbone \<Rightarrow> real \<Rightarrow> string \<Rightarrow> int list \<Rightarrow> real \<Rightarrow> real \<Rightarrow> real \<Rightarrow> real \<Rightarrow> error + encoder" where
  "Encoder_init model rate pt mlp_layers tmp hnw lr wd =
     (case Pooler_init pt of
        Inl e \<Rightarrow> Inl e
      | Inr p \<Rightarrow>
         (case MLPLayer_init 768 mlp_layers ''GELU'' of
            Inl e \<Rightarrow> Inl e
          | Inr n \<Rightarrow>
             Inr \<lparr>input_mask_rate = rate, bert_model = model, encoder_pooler_type = pt,
                  encoder_pooler = p, net = n, temp = tmp, hard_negative_weight = hnw,
                  learning_rate = lr, weight_decay = wd\<rparr>))"

text \<open>
  The caller's integer tensors live in a store, addressed by reference, because
  \<open>forward\<close> assigns into \<open>input_ids\<close> in place. The draws of \<open>torch.rand\<close> are a
  parameter: \<open>rand i j\<close> is the uniform draw for position \<open>j\<close> of example \<open>i\<close>.
\<close>

type_synonym ref = nat
type_synonym store = "ref \<Rightarrow> itensor2"

text \<open>
  \<open>(torch.rand(input_ids.size()) > self.input_mask_rate) * (input_ids != 101) *
  (input_ids != 102)\<close>: the product of boolean tensors is their conjunction.
\<close>

definition sentence_mask :: "real \<Rightarrow> (nat \<Rightarrow> nat \<Rightarrow> real) \<Rightarrow> itensor2 \<Rightarrow> bool list list" where
  "sentence_mask rate rand input_ids =
     map (\<lambda>(i, row). map (\<lambda>(j, x). gt_scalar (rand i j) rate \<and> x \<noteq> 101 \<and> x \<noteq> 102)
                          (enumerate 0 row))
         (enumerate 0 input_ids)"

text \<open>\<open>t[mask] = v\<close>: assignment at the positions where the mask holds.\<close>

definition setitem_mask :: "itensor2 \<Rightarrow> bool list list \<Rightarrow> int \<Rightarrow> itensor2" where
  "setitem_mask t msk v = map2 (map2 (\<lambda>x b. if b then v else x)) t msk"

text \<open>
  \<open>Encoder.forward\<close>. The store is returned with the result: the assignment
  \<open>input_ids[sentence_mask] = 0\<close> writes into the caller's tensor, and the backbone and
  the pooler read the tensors after it.
\<close>

definition forward ::
  "sequential \<Rightarrow> encoder \<Rightarrow> (nat \<Rightarrow> nat \<Rightarrow> real) \<Rightarrow> store \<Rightarrow> ref \<Rightarrow> ref \<Rightarrow> bool
     \<Rightarrow> store \<times> (error + ftensor2)" where
  "forward sequential self rand st input_ids attention_mask do_mlm =
     (let st1 = (if do_mlm
                 then st(input_ids :=
                        setitem_mask (st input_ids)
                          (sentence_mask (input_mask_rate self) rand (st input_ids)) 0)
                 else st)
      in (st1,
          case bert_model self (st1 input_ids) (st1 attention_mask) of
            Inl e \<Rightarrow> Inl e
          | Inr outputs \<Rightarrow>
             (case Pooler_forward (encoder_pooler self) (st1 attention_mask) outputs of
                Inl e \<Rightarrow> Inl e
              | Inr pooled \<Rightarrow>
                 if encoder_pooler_type self = ''cls''
                 then MLPLayer_forward sequential (net self) pooled
                 else Inr pooled)))"

section \<open>Evaluation step\<close>

text \<open>
  A batch as the data module yields it: four integer tensors of the caller (references
  into the store) and the labels, which no step writes to.
\<close>

record batch =
  anchor_input_ids :: ref
  anchor_attention_mask :: ref
  target_input_ids :: ref
  target_attention_mask :: ref
  labels :: "int list"

text \<open>\<open>t[msk]\<close> with a boolean mask over the first axis: the rows where it holds.\<close>

definition getitem_mask :: "'a list \<Rightarrow> bool list \<Rightarrow> error + 'a list" where
  "getitem_mask t msk =
     (if length msk = length t then Inr (map fst (filter snd (zip t msk)))
      else Inl (IndexError ''The shape of the mask does not match the shape of the indexed tensor''))"

definition tsub :: "tfloat \<Rightarrow> tfloat \<Rightarrow> tfloat" where
  "tsub a b = (case a of None \<Rightarrow> None | Some x \<Rightarrow> (case b of None \<Rightarrow> None | Some y \<Rightarrow> Some (x - y)))"

text \<open>\<open>a - b\<close> on two batches of embeddings of the same shape.\<close>

definition sub2 :: "ftensor2 \<Rightarrow> ftensor2 \<Rightarrow> error + ftensor2" where
  "sub2 a b =
     (if list_all2 (\<lambda>u v. length u = length v) a b then Inr (map2 (map2 tsub) a b)
      else Inl (RuntimeError ''The size of tensor a must match the size of tensor b''))"

text \<open>
  \<open>torch.norm(t)\<close> with no \<open>dim\<close>: one number for the whole tensor, the square root of
  the sum of the squares of all its entries. It is \<open>0\<close> on a tensor with no entries.
\<close>

definition l2 :: "real list \<Rightarrow> real" where
  "l2 xs = sqrt (sum_list (map (\<lambda>x. x * x) xs))"

definition torch_norm :: "ftensor2 \<Rightarrow> tfloat" where
  "torch_norm t = map_option l2 (those (concat t))"

text \<open>\<open>.mean()\<close> of a tensor with no axes (one number): that number.\<close>

definition scalar_mean :: "tfloat \<Rightarrow> tfloat" where
  "scalar_mean x = x"

text \<open>
  What \<open>_evaluate\<close> logs under \<open>diff/pos\<close> and \<open>diff/neg\<close>. (The entries \<open>sim/pos\<close>,
  \<open>sim/neg\<close> and \<open>hp_metric\<close> come from \<open>paraphrasegen.loss.Similarity\<close> and are not
  part of this record.)
\<close>

record eval_log =
  diff_pos :: tfloat
  diff_neg :: tfloat

definition evaluate_diff :: "int list \<Rightarrow> ftensor2 \<Rightarrow> ftensor2 \<Rightarrow> error + eval_log" where
  "evaluate_diff lbls anchor_outputs target_outputs =
     (case getitem_mask anchor_outputs (map (\<lambda>l. l = 1) lbls) of Inl e \<Rightarrow> Inl e
      | Inr pos_anchor_emb \<Rightarrow>
     (case getitem_mask target_outputs (map (\<lambda>l. l = 1) lbls) of Inl e \<Rightarrow> Inl e
      | Inr pos_target_emb \<Rightarrow>
     (case getitem_mask anchor_outputs (map (\<lambda>l. l = 0) lbls) of Inl e \<Rightarrow> Inl e
      | Inr neg_anchor_emb \<Rightarrow>
     (case getitem_mask target_outputs (map (\<lambda>l. l = 0) lbls) of Inl e \<Rightarrow> Inl e
      | Inr neg_target_emb \<Rightarrow>
     (case sub2 pos_anchor_emb pos_target_emb of Inl e \<Rightarrow> Inl e
      | Inr pos_delta \<Rightarrow>
     (case sub2 neg_anchor_emb neg_target_emb of Inl e \<Rightarrow> Inl e
      | Inr neg_delta \<Rightarrow>
         Inr \<lparr>diff_pos = scalar_mean (torch_norm pos_delta),
              diff_neg = scalar_mean (torch_norm neg_delta)\<rparr>))))))"

text \<open>
  \<open>Encoder._evaluate\<close>: two forward passes with \<open>do_mlm=False\<close>, then the metrics. An
  exception of the first pass ends the step.
\<close>

definition evaluate ::
  "sequential \<Rightarrow> encoder \<Rightarrow> (nat \<Rightarrow> nat \<Rightarrow> real) \<Rightarrow> store \<Rightarrow> batch \<Rightarrow> store \<times> (error + eval_log)" where
  "evaluate sequential self rand st b =
     (case forward sequential self rand st (anchor_input_ids b) (anchor_attention_mask b) False of
        (st1, Inl e) \<Rightarrow> (st1, Inl e)
      | (st1, Inr anchor_outputs) \<Rightarrow>
         (case forward sequential self rand st1 (target_input_ids b) (target_attention_mask b) False of
            (st2, Inl e) \<Rightarrow> (st2, Inl e)
          | (st2, Inr target_outputs) \<Rightarrow>
             (st2, evaluate_diff (labels b) anchor_outputs target_outputs)))"

text \<open>
  The metric as the specification words it, for comparison: the mean, over the examples
  of a subset, of the Euclidean distance between the anchor's and the target's
  embedding.
\<close>

definition tmean :: "tfloat list \<Rightarrow> tfloat" where
  "tmean xs = (case those xs of None \<Rightarrow> None | Some ys \<Rightarrow> tdiv (sum_list ys) (real (length ys)))"

definition euclidean_distance :: "tfloat list \<Rightarrow> tfloat list \<Rightarrow> tfloat" where
  "euclidean_distance a b = map_option l2 (those (map2 tsub a b))"

definition mean_euclidean_distance :: "ftensor2 \<Rightarrow> ftensor2 \<Rightarrow> tfloat" where
  "mean_euclidean_distance A B = tmean (map2 euclidean_distance A B)"

text \<open>
  The unweighted mean over the sequence axis as the specification words it, for
  comparison with the \<open>avg\<close> variant: per hidden dimension, the sum of the token
  vectors' entries divided by the number of tokens, as real numbers.
\<close>

definition unweighted_mean :: "tfloat list list \<Rightarrow> tfloat list" where
  "unweighted_mean row =
     (case row of [] \<Rightarrow> []
      | v # _ \<Rightarrow> map (\<lambda>d. case those (map (\<lambda>u. u ! d) row) of
                             None \<Rightarrow> None
                           | Some xs \<Rightarrow> tdiv (sum_list xs) (real (length row)))
                     [0..<length v])"

text \<open>
  The same mean computed in float32, as \<open>hidden.sum(1) / L\<close> computes it: for each of
  the \<open>D\<close> hidden dimensions, the float32 sum of the entries in sequence order, divided
  by the number of tokens converted to float32.
\<close>

definition fsum :: "tfloat list \<Rightarrow> tfloat" where
  "fsum zs = (case zs of [] \<Rightarrow> Some 0 | z # ws \<Rightarrow> foldl fadd z ws)"

definition mean_dim1 :: "nat \<Rightarrow> tfloat list list \<Rightarrow> tfloat list" where
  "mean_dim1 D row =
     map (\<lambda>d. fdiv (fsum (map (\<lambda>u. u ! d) row)) (f32_of_int (int (length row)))) [0..<D]"

section \<open>Optimizer configuration\<close>

record 'p param_group =
  params :: "'p list"
  group_weight_decay :: real

record 'p optimizer =
  param_groups :: "'p param_group list"
  lr :: real

definition no_decay :: "string list" where
  "no_decay = [''bias'', ''LayerNorm.weight'']"

text \<open>
  \<open>any(nd in n for nd in no_decay)\<close>: Python's \<open>in\<close> on strings is the test for a
  contiguous substring.
\<close>

definition any_no_decay :: "string \<Rightarrow> bool" where
  "any_no_decay n = list_ex (\<lambda>nd. sublist nd n) no_decay"

text \<open>
  \<open>Encoder.configure_optimizers\<close>, as a function of \<open>self.named_parameters()\<close>: the list
  of (name, parameter) pairs of the model.
\<close>

definition configure_optimizers :: "encoder \<Rightarrow> (string \<times> 'p) list \<Rightarrow> 'p optimizer" where
  "configure_optimizers self named_parameters =
     \<lparr>param_groups =
        [\<lparr>params = map snd (filter (\<lambda>(n, p). \<not> any_no_decay n) named_parameters),
          group_weight_decay = weight_decay self\<rparr>,
         \<lparr>params = map snd (filter (\<lambda>(n, p). any_no_decay n) named_parameters),
          group_weight_decay = 0\<rparr>],
      lr = learning_rate self\<rparr>"

section \<open>Contrastive loss\<close>

text \<open>
  Modelled from the spec: the module \<open>paraphrasegen.loss\<close> (\<open>Similarity\<close>,
  \<open>ContrastiveLoss\<close>) is imported by \<open>model.py\<close> and is not among the source files.
  \<open>cosine_similarity\<close> is the cosine of two embeddings, not a number when one of them
  has norm zero (section 4.1).
\<close>

definition dot :: "real list \<Rightarrow> real list \<Rightarrow> real" where
  "dot a b = sum_list (map2 (*) a b)"

definition cosine_similarity :: "real list \<Rightarrow> real list \<Rightarrow> tfloat" where
  "cosine_similarity a b = tdiv (dot a b) (sqrt (dot a a) * sqrt (dot b b))"

text \<open>
  Modelled from the spec: \<open>Similarity\<close> (section 4.1), the matrix whose entry \<open>(i, j)\<close>
  is the cosine similarity of \<open>A\<^sub>i\<close> and \<open>B\<^sub>j\<close> divided by the temperature.
\<close>

definition Similarity :: "real \<Rightarrow> tensor2 \<Rightarrow> tensor2 \<Rightarrow> ftensor2" where
  "Similarity tmp A B =
     map (\<lambda>a. map (\<lambda>b. case cosine_similarity a b of None \<Rightarrow> None | Some c \<Rightarrow> tdiv c tmp) B) A"

text \<open>
  Modelled from the spec: the categorical cross-entropy of one row of logits against
  its label (section 4.4, step 5), \<open>log (\<Sum>\<^sub>j exp l\<^sub>j) - l\<^sub>l\<^sub>a\<^sub>b\<^sub>e\<^sub>l\<close>.
\<close>

definition cross_entropy_row :: "tfloat list \<Rightarrow> nat \<Rightarrow> tfloat" where
  "cross_entropy_row logits label =
     map_option (\<lambda>ls. ln (sum_list (map exp ls)) - ls ! label) (those logits)"

text \<open>
  Modelled from the spec: the cross-entropy of the rows against the labels
  \<open>0, 1, ..., N - 1\<close> (row \<open>i\<close> has label \<open>i\<close>), averaged over the batch (section 4.4,
  step 5). A label that is not a column of its row is an error.
\<close>

definition cross_entropy :: "ftensor2 \<Rightarrow> error + tfloat" where
  "cross_entropy logits =
     (if list_ex (\<lambda>(i, row). length row \<le> i) (enumerate 0 logits)
      then Inl (IndexError ''Target out of bounds'')
      else Inr (tmean (map (\<lambda>(i, row). cross_entropy_row row i) (enumerate 0 logits))))"

text \<open>
  Modelled from the spec: the hard-negative adjustment of the negative similarities
  (section 4.4, step 3): \<open>w\<close> is added at the diagonal position of every row, \<open>0\<close>
  elsewhere.
\<close>

definition add_hard_negative_weight :: "real \<Rightarrow> ftensor2 \<Rightarrow> ftensor2" where
  "add_hard_negative_weight w S2 =
     map (\<lambda>(i, row). map (\<lambda>(j, s). map_option (\<lambda>x. x + (if j = i then w else 0)) s)
                          (enumerate 0 row))
         (enumerate 0 S2)"

text \<open>
  Modelled from the spec: \<open>ContrastiveLoss\<close> (section 4.4, steps 1 to 5): the two
  similarity matrices, the adjustment of the second, their concatenation along the
  candidate axis, and the mean cross-entropy.
\<close>

definition ContrastiveLoss :: "real \<Rightarrow> real \<Rightarrow> tensor2 \<Rightarrow> tensor2 \<Rightarrow> tensor2 \<Rightarrow> error + tfloat" where
  "ContrastiveLoss tmp w Z_a Z_t Z_n =
     cross_entropy (map2 (@) (Similarity tmp Z_a Z_t)
                             (add_hard_negative_weight w (Similarity tmp Z_a Z_n)))"

text \<open>
  Modelled from the spec: the unweighted in-batch-negative loss (section 8), the mean
  row-wise cross-entropy over the concatenated similarity logits with no bias added to
  any negative column.
\<close>

definition in_batch_negative_loss :: "real \<Rightarrow> tensor2 \<Rightarrow> tensor2 \<Rightarrow> tensor2 \<Rightarrow> error + tfloat" where
  "in_batch_negative_loss tmp Z_a Z_t Z_n =
     cross_entropy (map2 (@) (Similarity tmp Z_a Z_t) (Similarity tmp Z_a Z_n))"

section \<open>Example inputs\<close>

text \<open>
  A small backbone for the concrete cases below: the hidden state of a token is the
  vector \<open>[id, 0]\<close>, in every layer. The projection head of the examples returns its
  input.
\<close>

definition example_backbone :: backbone where
  "example_backbone input_ids attention_mask =
     Inr \<lparr>last_hidden_state = map (map (\<lambda>x. [Some (of_int x), Some 0])) input_ids,
          pooler_output = Some [],
          hidden_states = [map (map (\<lambda>x. [Some (of_int x), Some 0])) input_ids,
                           map (map (\<lambda>x. [Some (of_int x), Some 0])) input_ids],
          hidden_size = 2\<rparr>"

definition example_sequential :: sequential where
  "example_sequential ls x = Inr x"

definition example_encoder :: encoder where
  "example_encoder =
     \<lparr>input_mask_rate = 1 / 10, bert_model = example_backbone,
      encoder_pooler_type = ''cls_before_pooler'',
      encoder_pooler = \<lparr>pooler_type = ''cls_before_pooler''\<rparr>,
      net = \<lparr>mlp_net = [Linear 768 768, LayerNorm 768, Activation GELU]\<rparr>,
      temp = 1 / 20, hard_negative_weight = 0, learning_rate = 3 / 100000,
      weight_decay = 0\<rparr>"

text \<open>
  One sentence \<open>[101, 2023, 2003, 102]\<close> at reference 0, its attention mask at
  reference 1; the draw is \<open>0.05\<close> at position 1 and \<open>0.5\<close> at every other position.
\<close>

definition example_store :: store where
  "example_store = (\<lambda>r. [])(0 := [[101, 2023, 2003, 102]], 1 := [[1, 1, 1, 1]])"

definition example_rand :: "nat \<Rightarrow> nat \<Rightarrow> real" where
  "example_rand i j = (if j = 1 then 1 / 20 else 1 / 2)"

text \<open>
  An evaluation batch of four pairs, two labelled positive and two negative. With the
  example backbone and the \<open>cls_before_pooler\<close> variant the anchor embeddings are
  \<open>[3, 0]\<close>, \<open>[4, 0]\<close>, \<open>[6, 0]\<close>, \<open>[8, 0]\<close> and the target embeddings are all \<open>[0, 0]\<close>.
\<close>

definition example_eval_store :: store where
  "example_eval_store =
     (\<lambda>r. [])(0 := [[3], [4], [6], [8]], 1 := [[1], [1], [1], [1]],
              2 := [[0], [0], [0], [0]], 3 := [[1], [1], [1], [1]])"

definition example_batch :: batch where
  "example_batch =
     \<lparr>anchor_input_ids = 0, anchor_attention_mask = 1, target_input_ids = 2,
      target_attention_mask = 3, labels = [1, 1, 0, 0]\<rparr>"

section \<open>Theorems\<close>

subsection \<open>Float32 rounding\<close>

lemma rne_of_int [simp]: "rne (of_int n) = n"
  by (simp add: rne_def)

lemma ulp32_pos: "0 < ulp32 x"
  by (simp add: ulp32_def)

lemma round32_zero [simp]: "round32 0 = Some 0"
  by (simp add: round32_def)

lemma fexp32_eq:
  assumes "2 powr of_int e \<le> \<bar>x\<bar>" and "\<bar>x\<bar> < 2 powr (of_int e + 1)"
  shows "fexp32 x = max e (- 126)"
proof -
  have "0 < \<bar>x\<bar>" using assms(1) powr_gt_zero [of 2 "of_int e"] by linarith
  then have "\<lfloor>log 2 \<bar>x\<bar>\<rfloor> = e"
    using assms by (simp add: floor_log_eq_powr_iff)
  then show ?thesis by (simp add: fexp32_def)
qed

text \<open>
  An integer of fewer than 25 bits times a power of two within the exponent range is a
  float32 value.
\<close>

lemma round32_dyadic:
  assumes "\<bar>m\<bar> < 2 ^ 24" and "- 149 \<le> e" and "e \<le> 104"
  shows "round32 (of_int m * 2 powr of_int e) = Some (of_int m * 2 powr of_int e)"
proof (cases "m = 0")
  case True
  then show ?thesis by simp
next
  case False
  let ?x = "of_int m * 2 powr of_int e :: real"
  have x0: "?x \<noteq> 0" using False by simp
  have absx: "\<bar>?x\<bar> = of_int \<bar>m\<bar> * 2 powr of_int e" by (simp add: abs_mult)
  have "of_int \<bar>m\<bar> < (2 ^ 24 :: real)" using assms(1)
    by (metis of_int_less_numeral_power_cancel_iff)
  then have "\<bar>?x\<bar> < 2 ^ 24 * 2 powr of_int e"
    unfolding absx by (simp)
  also have "\<dots> = 2 powr (of_int e + 24)"
    by (simp add: powr_add)
  finally have lt: "\<bar>?x\<bar> < 2 powr (of_int (e + 23) + 1)" by (simp add: add.commute)
  have "log 2 \<bar>?x\<bar> < of_int (e + 23) + 1"
    using lt x0 by (subst log_less_iff) auto
  then have fl: "\<lfloor>log 2 \<bar>?x\<bar>\<rfloor> \<le> e + 23"
    by (simp add: floor_le_iff)
  define k where "k = e - (fexp32 ?x - 23)"
  have k0: "0 \<le> k" using fl assms(2) by (auto simp: k_def fexp32_def)
  have u: "ulp32 ?x = 2 powr (of_int e - of_int k)"
    by (simp add: ulp32_def k_def)
  have pk: "2 powr (of_int k) = (of_int (2 ^ nat k) :: real)"
    using k0 by (simp add: powr_real_of_int)
  have q: "?x / ulp32 ?x = of_int (m * 2 ^ nat k)"
    unfolding u by (simp add: powr_diff pk)
  have r: "ulp32 ?x * of_int (rne (?x / ulp32 ?x)) = ?x"
    unfolding q rne_of_int using ulp32_pos [of ?x] q
    by (metis nonzero_eq_divide_eq mult.commute less_irrefl)
  have "\<bar>m\<bar> \<le> 2 ^ 24 - 1" using assms(1) by simp
  then have "of_int \<bar>m\<bar> \<le> (of_int (2 ^ 24 - 1) :: real)"
    by (simp only: of_int_le_iff)
  then have "of_int \<bar>m\<bar> \<le> (2 ^ 24 - 1 :: real)" by simp
  moreover have "2 powr of_int e \<le> (2 powr of_int (104::int) :: real)"
    using assms(3) by (intro powr_mono) auto
  ultimately have "\<bar>?x\<bar> \<le> (2 ^ 24 - 1) * 2 powr of_int (104::int)"
    unfolding absx by (intro mult_mono) auto
  also have "\<dots> = fmax32" by (simp add: fmax32_def)
  finally have "\<bar>?x\<bar> \<le> fmax32" .
  then show ?thesis using x0 r by (simp add: round32_def)
qed


lemma round32_of_int:
  assumes "\<bar>n\<bar> < 2 ^ 24"
  shows "round32 (of_int n) = Some (of_int n)"
  using round32_dyadic [OF assms, of 0] by simp

lemma round32_one [simp]: "round32 1 = Some 1"
  using round32_of_int [of 1] by simp

lemma is_f32_double:
  assumes "is_f32 x" and "\<bar>2 * x\<bar> \<le> fmax32"
  shows "round32 (2 * x) = Some (2 * x)"
proof (cases "x = 0")
  case True
  then show ?thesis by simp
next
  case False
  define n where "n = rne (x / ulp32 x)"
  have xr: "ulp32 x * of_int n = x"
    using assms(1) False by (simp add: is_f32_def round32_def n_def split: if_splits)
  have l2: "log 2 \<bar>2 * x\<bar> = log 2 \<bar>x\<bar> + 1"
    using False by (simp add: abs_mult log_mult)
  have fl: "\<lfloor>log 2 \<bar>2 * x\<bar>\<rfloor> = \<lfloor>log 2 \<bar>x\<bar>\<rfloor> + 1"
    unfolding l2 by simp
  show ?thesis
  proof (cases "- 126 \<le> \<lfloor>log 2 \<bar>x\<bar>\<rfloor>")
    case True
    then have "fexp32 (2 * x) = fexp32 x + 1"
      by (simp add: fexp32_def fl)
    then have "ulp32 (2 * x) = 2 powr (1 + (of_int (fexp32 x) - 23))"
      by (simp add: ulp32_def)
    also have "\<dots> = 2 powr 1 * 2 powr (of_int (fexp32 x) - 23)"
      by (rule powr_add)
    finally have u: "ulp32 (2 * x) = 2 * ulp32 x"
      by (simp add: ulp32_def)
    have "2 * x / ulp32 (2 * x) = of_int n"
      unfolding u using xr ulp32_pos [of x] by (simp add: field_simps)
    then have "ulp32 (2 * x) * of_int (rne (2 * x / ulp32 (2 * x))) = 2 * x"
      using u xr by simp
    then show ?thesis using False assms(2) by (simp add: round32_def)
  next
    case False
    then have "\<lfloor>log 2 \<bar>x\<bar>\<rfloor> + 1 \<le> - 126" by linarith
    then have "fexp32 (2 * x) = fexp32 x"
      unfolding fexp32_def fl by linarith
    then have u: "ulp32 (2 * x) = ulp32 x"
      by (simp add: ulp32_def)
    have q: "2 * x / ulp32 (2 * x) = of_int (2 * n)"
      unfolding u using xr ulp32_pos [of x] by (simp add: field_simps)
    have "rne (2 * x / ulp32 (2 * x)) = 2 * n"
      by (simp only: q rne_of_int)
    then have "ulp32 (2 * x) * of_int (rne (2 * x / ulp32 (2 * x))) = ulp32 x * of_int (2 * n)"
      by (simp only: u)
    also have "\<dots> = 2 * x"
      using xr by simp
    finally have "ulp32 (2 * x) * of_int (rne (2 * x / ulp32 (2 * x))) = 2 * x" .
    then show ?thesis using \<open>x \<noteq> 0\<close> assms(2) by (simp add: round32_def)
  qed
qed

lemma round32_eval:
  assumes "2 powr of_int e \<le> \<bar>x\<bar>" and "\<bar>x\<bar> < 2 powr (of_int e + 1)" and "- 126 \<le> e"
    and "x / 2 powr (of_int e - 23) = y" and "rne y = n"
  shows "round32 x = (if fmax32 < \<bar>2 powr (of_int e - 23) * of_int n\<bar> then None
                      else Some (2 powr (of_int e - 23) * of_int n))"
proof -
  have x0: "x \<noteq> 0" using assms(1) powr_gt_zero [of 2 "of_int e"] by auto
  have "fexp32 x = e" using fexp32_eq [OF assms(1,2)] assms(3) by simp
  then have u: "ulp32 x = 2 powr (of_int e - 23)" by (simp add: ulp32_def)
  show ?thesis
    unfolding round32_def u assms(4) assms(5) using x0 by simp
qed

lemma round32_2p127: "round32 (2 ^ 127) = Some (2 ^ 127)"
  using round32_dyadic [of "2 ^ 23" 104] by (simp)

lemma round32_2p128: "round32 (2 ^ 127 + 2 ^ 127) = None"
proof -
  define x :: real where "x = 2 ^ 127 + 2 ^ 127"
  have a: "2 powr of_int 128 \<le> \<bar>x\<bar>" and b: "\<bar>x\<bar> < 2 powr (of_int 128 + 1)"
    by (simp_all add: x_def)
  have c: "x / 2 powr (of_int 128 - 23) = of_int (2 ^ 23)"
    by (simp add: x_def)
  have "round32 x = None"
    using round32_eval [OF a b _ c rne_of_int] by (simp add: fmax32_def)
  then show ?thesis by (simp add: x_def)
qed

lemma round32_tenth: "round32 (1 / 10) = Some (13421773 / 134217728)"
proof -
  have a: "2 powr of_int (- 4) \<le> \<bar>1 / 10 :: real\<bar>"
    and b: "\<bar>1 / 10 :: real\<bar> < 2 powr (of_int (- 4) + 1)"
    by (simp_all add: powr_neg_numeral)
  have c: "(1 / 10 :: real) / 2 powr (of_int (- 4) - 23) = 67108864 / 5"
    by (simp add: powr_neg_numeral)
  have d: "rne (67108864 / 5) = 13421773"
    by (simp add: rne_def)
  show ?thesis
    using round32_eval [OF a b _ c d] by (simp add: fmax32_def powr_neg_numeral)
qed


lemma round32_numeral:
  "(numeral k :: int) < 2 ^ 24 \<Longrightarrow> round32 (numeral k) = Some (numeral k)"
  using round32_of_int [of "numeral k"] by simp

lemma is_f32_numeral: "(numeral k :: int) < 2 ^ 24 \<Longrightarrow> is_f32 (numeral k)"
  by (simp add: is_f32_def round32_numeral)

lemma is_f32_0 [simp]: "is_f32 0" and is_f32_1 [simp]: "is_f32 1"
  by (simp_all add: is_f32_def)

lemma f32_of_int_0 [simp]: "f32_of_int 0 = Some 0"
  and f32_of_int_1 [simp]: "f32_of_int 1 = Some 1"
  by (simp_all add: f32_of_int_def)

lemma fmul_one: "f32_entry a \<Longrightarrow> fmul a (Some 1) = a"
  by (cases a) (simp_all add: fmul_def f32_entry_def is_f32_def)

lemma fmul_zero: "fmul (Some x) (Some 0) = Some 0"
  by (simp add: fmul_def)

lemma fdiv_one: "f32_entry a \<Longrightarrow> fdiv a (Some 1) = a"
  by (cases a) (simp_all add: fdiv_def f32_entry_def is_f32_def)

lemma fadd_zero_right: "f32_entry a \<Longrightarrow> fadd a (Some 0) = a"
  by (cases a) (simp_all add: fadd_def f32_entry_def is_f32_def)

lemma fadd_zero_left: "f32_entry a \<Longrightarrow> fadd (Some 0) a = a"
  by (cases a) (simp_all add: fadd_def f32_entry_def is_f32_def)

lemma half_double:
  assumes "double_fits a"
  shows "fdiv (fadd a a) (Some 2) = a"
proof (cases a)
  case None
  then show ?thesis by (simp add: fdiv_def fadd_def)
next
  case (Some x)
  with assms have x: "is_f32 x" "\<bar>2 * x\<bar> \<le> fmax32" by (simp_all add: double_fits_def)
  have "fadd a a = Some (2 * x)"
    using is_f32_double [OF x] Some by (simp add: fadd_def)
  then show ?thesis
    using x(1) Some by (simp add: fdiv_def is_f32_def)
qed

subsection \<open>Broadcasting\<close>

lemma sequence_err_map_Inr:
  "(\<And>z. z \<in> set zs \<Longrightarrow> F z = Inr (G z)) \<Longrightarrow> sequence_err (map F zs) = Inr (map G zs)"
  by (induction zs) simp_all

lemma sequence_err_Inl:
  "sequence_err zs = Inl e \<Longrightarrow> Inl e \<in> set zs"
  by (induction zs) (auto split: sum.splits)

lemma broadcast_same_length:
  assumes "length xs = length ys"
    and "\<And>x y. (x, y) \<in> set (zip xs ys) \<Longrightarrow> f x y = Inr (g x y)"
  shows "broadcast f xs ys = Inr (map2 g xs ys)"
proof -
  have "sequence_err (map (\<lambda>(x, y). f x y) (zip xs ys)) = Inr (map (\<lambda>(x, y). g x y) (zip xs ys))"
    by (rule sequence_err_map_Inr) (use assms(2) in auto)
  then show ?thesis
    using assms(1) by (simp add: broadcast_def)
qed

lemma broadcast_not_NotImplemented:
  assumes "\<And>x y. f x y \<noteq> Inl NotImplementedError"
  shows "broadcast f xs ys \<noteq> Inl NotImplementedError"
proof
  assume "broadcast f xs ys = Inl NotImplementedError"
  then have "Inl NotImplementedError \<in> set (map2 f xs ys) \<or>
             Inl NotImplementedError \<in> set (map (\<lambda>x. f x (hd ys)) xs) \<or>
             Inl NotImplementedError \<in> set (map (f (hd xs)) ys)"
    by (auto simp: broadcast_def dest: sequence_err_Inl split: if_splits)
  then show False
    using assms by (auto simp: in_set_zip) (metis assms)+
qed

subsection \<open>Pooler dispatch\<close>

lemma Pooler_init_Inr:
  "Pooler_init pt = Inr p \<Longrightarrow>
     pooler_type p = pt \<and>
     pt \<in> {''cls'', ''cls_before_pooler'', ''avg'', ''avg_top2'', ''avg_first_last''}"
  by (auto simp: Pooler_init_def split: if_splits)

lemma select_first_not_NotImplemented: "select_first t \<noteq> Inl NotImplementedError"
  by (simp add: select_first_def)

lemma masked_mean_not_NotImplemented: "masked_mean D h m \<noteq> Inl NotImplementedError"
  by (auto simp: masked_mean_def mul_mask_def div_rows_def broadcast_not_NotImplemented
      split: sum.splits)

lemma getitem_not_NotImplemented: "getitem xs i \<noteq> Inl NotImplementedError"
  by (simp add: getitem_def)

lemma add3_not_NotImplemented: "add3 a b \<noteq> Inl NotImplementedError"
  by (simp add: add3_def broadcast_not_NotImplemented)

subsection \<open>Construction\<close>

lemma Pooler_init_unrecognized:
  "pt \<notin> {''cls'', ''cls_before_pooler'', ''avg'', ''avg_top2'', ''avg_first_last''} \<Longrightarrow>
     Pooler_init pt = Inl (AssertionError (''unrecognized_pooling_type: '' @ pt))"
  by (simp add: Pooler_init_def)

lemma MLPLayer_init_unrecognized:
  "activation \<notin> {''GELU'', ''ReLU'', ''mish'', ''leaky_relu''} \<Longrightarrow>
     MLPLayer_init in_dims hidden_dims activation =
       Inl (if hidden_dims = [] then IndexError ''list index out of range''
            else if in_dims < 0 \<or> hd hidden_dims < 0
            then RuntimeError ''Trying to create tensor with negative dimension''
            else UnboundLocalError ''activation_fn'')"
  by (simp add: MLPLayer_init_def nn_Linear_def nn_LayerNorm_def split: list.splits)

text \<open>
  Claim C7. A \<open>Pooler\<close> built with an unrecognized pooling type fails in the constructor
  with the assertion's message, which names the type (\<open>Pooler_init_unrecognized\<close>). An
  \<open>MLPLayer\<close> built with an unrecognized activation fails in the constructor too, but
  not with an error that describes the activation: the \<open>if/elif\<close> chain has no \<open>else\<close>,
  and \<open>MLPLayer(768, [768], "tanh")\<close> ends in the interpreter's \<open>UnboundLocalError\<close>
  for the local variable \<open>activation_fn\<close>.
\<close>

theorem MLPLayer_init_tanh_unbound_local:
  "MLPLayer_init 768 [768] ''tanh'' = Inl (UnboundLocalError ''activation_fn'')"
  by (simp add: MLPLayer_init_def nn_Linear_def nn_LayerNorm_def)

text \<open>
  Claim C10. A pooler whose construction succeeded never reaches the final
  \<open>raise NotImplementedError\<close> of \<open>Pooler.forward\<close>, whatever the attention mask and the
  backbone outputs: one of the variant branches handles the call.
\<close>

theorem Pooler_forward_never_NotImplemented:
  assumes "Pooler_init pt = Inr p"
  shows "Pooler_forward p attention_mask outputs \<noteq> Inl NotImplementedError"
  using Pooler_init_Inr [OF assms]
  by (auto simp: Pooler_forward_def select_first_not_NotImplemented
        masked_mean_not_NotImplemented getitem_not_NotImplemented add3_not_NotImplemented
      split: sum.splits)

theorem Pooler_forward_never_NotImplemented_witness:
  "Pooler_init ''avg_top2'' = Inr \<lparr>pooler_type = ''avg_top2''\<rparr> \<and>
   Pooler_forward \<lparr>pooler_type = ''avg_top2''\<rparr> [[1]]
      \<lparr>last_hidden_state = [[[Some 2]]], pooler_output = Some [], hidden_states = [],
       hidden_size = 1\<rparr>
     \<noteq> Inl NotImplementedError"
proof -
  have h: "Pooler_init ''avg_top2'' = Inr \<lparr>pooler_type = ''avg_top2''\<rparr>"
    by (simp add: Pooler_init_def)
  show ?thesis
    using h Pooler_forward_never_NotImplemented [OF h] by simp
qed

subsection \<open>Input corruption and the caller's tensors\<close>

lemma gt_scalar_tenth: "gt_scalar d (1 / 10) \<longleftrightarrow> 13421773 / 134217728 < d"
  by (simp add: gt_scalar_def round32_tenth)

lemma fst_forward:
  "fst (forward sequential self rand st input_ids attention_mask do_mlm) =
     (if do_mlm
      then st(input_ids := setitem_mask (st input_ids)
                 (sentence_mask (input_mask_rate self) rand (st input_ids)) 0)
      else st)"
  by (simp add: forward_def Let_def)

lemma length_corrupted:
  "length (setitem_mask t (sentence_mask rate rand t) v) = length t"
  by (simp add: setitem_mask_def sentence_mask_def)

lemma nth_corrupted_row:
  assumes "i < length t"
  shows "setitem_mask t (sentence_mask rate rand t) v ! i =
           map (\<lambda>(j, x). if gt_scalar (rand i j) rate \<and> x \<noteq> 101 \<and> x \<noteq> 102 then v else x)
               (enumerate 0 (t ! i))"
proof -
  have "setitem_mask t (sentence_mask rate rand t) v ! i =
          map2 (\<lambda>x b. if b then v else x) (t ! i)
            (map (\<lambda>(j, x). gt_scalar (rand i j) rate \<and> x \<noteq> 101 \<and> x \<noteq> 102)
                 (enumerate 0 (t ! i)))"
    using assms by (simp add: setitem_mask_def sentence_mask_def nth_enumerate_eq)
  also have "\<dots> = map (\<lambda>(j, x). if gt_scalar (rand i j) rate \<and> x \<noteq> 101 \<and> x \<noteq> 102 then v else x)
               (enumerate 0 (t ! i))"
    by (rule nth_equalityI) (simp_all add: nth_enumerate_eq)
  finally show ?thesis .
qed

lemma length_corrupted_row:
  "i < length t \<Longrightarrow> length (setitem_mask t (sentence_mask rate rand t) v ! i) = length (t ! i)"
  by (simp add: nth_corrupted_row)

text \<open>
  What the assignment does at every position: the token is overwritten exactly when
  its draw is above the rate (converted to float32) and it is neither 101 nor 102.
\<close>

lemma nth_corrupted:
  assumes "i < length t" and "j < length (t ! i)"
  shows "setitem_mask t (sentence_mask rate rand t) v ! i ! j =
           (if gt_scalar (rand i j) rate \<and> t ! i ! j \<noteq> 101 \<and> t ! i ! j \<noteq> 102
            then v else t ! i ! j)"
  using assms by (simp add: nth_corrupted_row nth_enumerate_eq)

text \<open>
  Claim C1. With corruption enabled, a position is zeroed when its draw is above
  \<open>input_mask_rate\<close>, not below it. In the example the rate is \<open>0.1\<close>: the token 2023,
  whose draw \<open>0.05\<close> is below the rate, is kept, and the token 2003, whose draw \<open>0.5\<close> is
  above it, is zeroed. The boundary tokens 101 and 102 are kept.
\<close>

theorem forward_zeroes_above_rate_example:
  "example_rand 0 1 < input_mask_rate example_encoder \<and>
   input_mask_rate example_encoder < example_rand 0 2 \<and>
   example_store 0 = [[101, 2023, 2003, 102]] \<and>
   fst (forward example_sequential example_encoder example_rand example_store 0 1 True) 0
     = [[101, 2023, 0, 102]]"
  by (simp add: fst_forward example_encoder_def example_store_def example_rand_def
        sentence_mask_def setitem_mask_def enumerate_eq_zip upt_rec gt_scalar_tenth)

text \<open>
  Claim C3, as stated: after \<open>forward\<close> returns, the caller's \<open>input_ids\<close> hold the same
  values as before. It fails with corruption enabled: the assignment writes into the
  caller's tensor.
\<close>

theorem forward_modifies_input_ids_example:
  "fst (forward example_sequential example_encoder example_rand example_store 0 1 True) 0
     \<noteq> example_store 0"
  by (simp add: fst_forward example_encoder_def example_store_def example_rand_def
        sentence_mask_def setitem_mask_def enumerate_eq_zip upt_rec gt_scalar_tenth)

text \<open>
  Claim C3, amended. \<open>forward\<close> writes to no tensor other than \<open>input_ids\<close> (so the
  attention mask, a different tensor, is unchanged); with corruption disabled it writes
  to nothing; with corruption enabled the caller's \<open>input_ids\<close> keep their shape, every
  position holds its old value or 0, and a position that held 101 or 102 holds its old
  value.
\<close>

theorem forward_frame:
  "(\<forall>r. r \<noteq> input_ids \<longrightarrow>
        fst (forward sequential self rand st input_ids attention_mask do_mlm) r = st r) \<and>
   (\<not> do_mlm \<longrightarrow> fst (forward sequential self rand st input_ids attention_mask do_mlm) = st) \<and>
   length (fst (forward sequential self rand st input_ids attention_mask do_mlm) input_ids)
     = length (st input_ids) \<and>
   (\<forall>i < length (st input_ids).
      length (fst (forward sequential self rand st input_ids attention_mask do_mlm) input_ids ! i)
        = length (st input_ids ! i) \<and>
      (\<forall>j < length (st input_ids ! i).
         fst (forward sequential self rand st input_ids attention_mask do_mlm) input_ids ! i ! j
           = st input_ids ! i ! j \<or>
         fst (forward sequential self rand st input_ids attention_mask do_mlm) input_ids ! i ! j = 0 \<and>
         st input_ids ! i ! j \<noteq> 101 \<and> st input_ids ! i ! j \<noteq> 102))"
  by (simp add: fst_forward length_corrupted length_corrupted_row nth_corrupted)

theorem forward_frame_witness:
  "(1::nat) \<noteq> 0 \<and>
   fst (forward example_sequential example_encoder example_rand example_store 0 1 True) 1
     = example_store 1 \<and>
   0 < length (example_store 0) \<and> 3 < length (example_store 0 ! 0) \<and>
   fst (forward example_sequential example_encoder example_rand example_store 0 1 True) 0 ! 0 ! 2 = 0 \<and>
   example_store 0 ! 0 ! 2 \<noteq> 101 \<and> example_store 0 ! 0 ! 2 \<noteq> 102 \<and>
   fst (forward example_sequential example_encoder example_rand example_store 0 1 True) 0 ! 0 ! 3
     = example_store 0 ! 0 ! 3"
  using forward_frame [of 0 example_sequential example_encoder example_rand example_store 1 True]
  by (simp add: fst_forward example_encoder_def example_store_def example_rand_def
        sentence_mask_def setitem_mask_def enumerate_eq_zip upt_rec gt_scalar_tenth)

subsection \<open>Evaluation metrics\<close>

text \<open>
  Claim C2. \<open>diff/pos\<close> and \<open>diff/neg\<close> are \<open>torch.norm(...)\<close> of the whole subset followed
  by \<open>.mean()\<close> of that one number: the square root of the sum of the squared distances,
  not their mean. On the example batch the positive pairs are at distances 3 and 4 and
  the negative pairs at 6 and 8: the logged values are 5 and 10, the means 3.5 and 7.
\<close>

theorem evaluate_diff_not_mean_example:
  "snd (forward example_sequential example_encoder example_rand example_eval_store 0 1 False)
     = Inr [[Some 3, Some 0], [Some 4, Some 0], [Some 6, Some 0], [Some 8, Some 0]] \<and>
   snd (forward example_sequential example_encoder example_rand example_eval_store 2 3 False)
     = Inr [[Some 0, Some 0], [Some 0, Some 0], [Some 0, Some 0], [Some 0, Some 0]] \<and>
   snd (evaluate example_sequential example_encoder example_rand example_eval_store example_batch)
     = Inr \<lparr>diff_pos = Some 5, diff_neg = Some 10\<rparr> \<and>
   mean_euclidean_distance [[Some 3, Some 0], [Some 4, Some 0]]
                           [[Some 0, Some 0], [Some 0, Some 0]] = Some (7 / 2) \<and>
   mean_euclidean_distance [[Some 6, Some 0], [Some 8, Some 0]]
                           [[Some 0, Some 0], [Some 0, Some 0]] = Some 7"
proof -
  have sq: "sqrt 9 = 3" "sqrt 16 = 4" "sqrt 25 = 5" "sqrt 36 = 6" "sqrt 64 = 8" "sqrt 100 = 10"
    using real_sqrt_abs [of 3] real_sqrt_abs [of 4] real_sqrt_abs [of 5]
      real_sqrt_abs [of 6] real_sqrt_abs [of 8] real_sqrt_abs [of 10]
    by simp_all
  show ?thesis
    by (simp add: evaluate_def forward_def example_encoder_def example_eval_store_def
          example_batch_def example_backbone_def Pooler_forward_def select_first_def
          example_sequential_def evaluate_diff_def getitem_mask_def sub2_def tsub_def
          torch_norm_def l2_def scalar_mean_def mean_euclidean_distance_def
          euclidean_distance_def tmean_def tdiv_def sq)
qed

subsection \<open>Projection head in the forward pass\<close>

lemma Encoder_init_Inr:
  assumes "Encoder_init model rate pt mlp_layers tmp hnw lrate wd = Inr self"
  shows "encoder_pooler_type self = pt" "Pooler_init pt = Inr (encoder_pooler self)"
    "bert_model self = model" "input_mask_rate self = rate"
    "MLPLayer_init 768 mlp_layers ''GELU'' = Inr (net self)"
    "weight_decay self = wd" "learning_rate self = lrate"
  using assms by (auto simp: Encoder_init_def split: sum.splits)

lemma snd_forward:
  "snd (forward sequential self rand st input_ids attention_mask do_mlm) =
     (case bert_model self
             (fst (forward sequential self rand st input_ids attention_mask do_mlm) input_ids)
             (fst (forward sequential self rand st input_ids attention_mask do_mlm) attention_mask) of
        Inl e \<Rightarrow> Inl e
      | Inr outputs \<Rightarrow>
         (case Pooler_forward (encoder_pooler self)
                 (fst (forward sequential self rand st input_ids attention_mask do_mlm) attention_mask)
                 outputs of
            Inl e \<Rightarrow> Inl e
          | Inr pooled \<Rightarrow>
             if encoder_pooler_type self = ''cls''
             then MLPLayer_forward sequential (net self) pooled
             else Inr pooled))"
  unfolding forward_def Let_def fst_conv snd_conv by (rule refl)

text \<open>
  Claim C4. For an encoder that was constructed (so its pooling variant is one of the
  five), \<open>forward\<close> applies the projection head to the pooler's output when the variant
  is \<open>cls\<close>, and returns the pooler's output as it is for \<open>cls_before_pooler\<close>, \<open>avg\<close>,
  \<open>avg_top2\<close> and \<open>avg_first_last\<close>. \<open>st1\<close> is the store the backbone and the pooler
  read, \<open>outputs\<close> what the backbone returned.
\<close>

theorem forward_projects_iff_cls:
  assumes "Encoder_init model rate pt mlp_layers tmp hnw lrate wd = Inr self"
    and "fst (forward sequential self rand st input_ids attention_mask do_mlm) = st1"
    and "model (st1 input_ids) (st1 attention_mask) = Inr outputs"
  shows "(pt = ''cls'' \<longrightarrow>
            snd (forward sequential self rand st input_ids attention_mask do_mlm) =
              (case Pooler_forward (encoder_pooler self) (st1 attention_mask) outputs of
                 Inl e \<Rightarrow> Inl e
               | Inr pooled \<Rightarrow> MLPLayer_forward sequential (net self) pooled)) \<and>
         (pt \<in> {''cls_before_pooler'', ''avg'', ''avg_top2'', ''avg_first_last''} \<longrightarrow>
            snd (forward sequential self rand st input_ids attention_mask do_mlm) =
              Pooler_forward (encoder_pooler self) (st1 attention_mask) outputs) \<and>
         pooler_type (encoder_pooler self) = pt \<and>
         pt \<in> {''cls'', ''cls_before_pooler'', ''avg'', ''avg_top2'', ''avg_first_last''}"
proof -
  note e = Encoder_init_Inr [OF assms(1)]
  from Pooler_init_Inr [OF e(2)] have p: "pooler_type (encoder_pooler self) = pt"
    "pt \<in> {''cls'', ''cls_before_pooler'', ''avg'', ''avg_top2'', ''avg_first_last''}"
    by simp_all
  have s: "snd (forward sequential self rand st input_ids attention_mask do_mlm) =
     (case Pooler_forward (encoder_pooler self) (st1 attention_mask) outputs of
            Inl e \<Rightarrow> Inl e
          | Inr pooled \<Rightarrow>
             if pt = ''cls''
             then MLPLayer_forward sequential (net self) pooled
             else Inr pooled)"
    using assms(2,3) e(1,3) by (simp add: snd_forward split: sum.splits)
  show ?thesis
    using p by (auto simp: s split: sum.splits)
qed

theorem forward_projects_iff_cls_witness:
  "Encoder_init example_backbone (1 / 10) ''cls_before_pooler'' [768] (1 / 20) 0 (3 / 100000) 0
     = Inr example_encoder \<and>
   fst (forward example_sequential example_encoder example_rand example_store 0 1 False)
     = example_store \<and>
   example_backbone (example_store 0) (example_store 1)
     = Inr \<lparr>last_hidden_state = [[[Some 101, Some 0], [Some 2023, Some 0], [Some 2003, Some 0], [Some 102, Some 0]]],
            pooler_output = Some [],
            hidden_states = [[[[Some 101, Some 0], [Some 2023, Some 0], [Some 2003, Some 0], [Some 102, Some 0]]],
                             [[[Some 101, Some 0], [Some 2023, Some 0], [Some 2003, Some 0], [Some 102, Some 0]]]],
          hidden_size = 2\<rparr> \<and>
   snd (forward example_sequential example_encoder example_rand example_store 0 1 False)
     = Pooler_forward (encoder_pooler example_encoder) (example_store 1)
         \<lparr>last_hidden_state = [[[Some 101, Some 0], [Some 2023, Some 0], [Some 2003, Some 0], [Some 102, Some 0]]],
          pooler_output = Some [],
          hidden_states = [[[[Some 101, Some 0], [Some 2023, Some 0], [Some 2003, Some 0], [Some 102, Some 0]]],
                           [[[Some 101, Some 0], [Some 2023, Some 0], [Some 2003, Some 0], [Some 102, Some 0]]]],
          hidden_size = 2\<rparr>"
proof -
  have h1: "Encoder_init example_backbone (1 / 10) ''cls_before_pooler'' [768] (1 / 20) 0
              (3 / 100000) 0 = Inr example_encoder"
    by (simp add: Encoder_init_def Pooler_init_def MLPLayer_init_def nn_Linear_def
          nn_LayerNorm_def example_encoder_def)
  have h2: "fst (forward example_sequential example_encoder example_rand example_store 0 1 False)
              = example_store"
    by (simp add: fst_forward)
  have h3: "example_backbone (example_store 0) (example_store 1)
     = Inr \<lparr>last_hidden_state = [[[Some 101, Some 0], [Some 2023, Some 0], [Some 2003, Some 0], [Some 102, Some 0]]],
            pooler_output = Some [],
            hidden_states = [[[[Some 101, Some 0], [Some 2023, Some 0], [Some 2003, Some 0], [Some 102, Some 0]]],
                             [[[Some 101, Some 0], [Some 2023, Some 0], [Some 2003, Some 0], [Some 102, Some 0]]]],
          hidden_size = 2\<rparr>"
    by (simp add: example_backbone_def example_store_def)
  show ?thesis
    using h1 h2 h3 forward_projects_iff_cls [OF h1 h2 h3] by simp
qed

subsection \<open>Optimizer parameter groups\<close>

lemma mset_groups:
  "mset (map snd (filter (\<lambda>(n, p). \<not> P n) xs)) + mset (map snd (filter (\<lambda>(n, p). P n) xs))
     = mset (map snd xs)"
  by (induction xs) auto

lemma groups_disjoint:
  assumes "distinct (map snd xs)"
  shows "set (map snd (filter (\<lambda>(n, p). \<not> P n) xs)) \<inter> set (map snd (filter (\<lambda>(n, p). P n) xs)) = {}"
  using assms by (induction xs) (auto simp: image_iff)

lemma any_no_decay_iff:
  "any_no_decay n \<longleftrightarrow> sublist ''bias'' n \<or> sublist ''LayerNorm.weight'' n"
  by (simp add: any_no_decay_def no_decay_def)

text \<open>
  Claim C8. \<open>configure_optimizers\<close> builds exactly two parameter groups, the first with
  the configured weight decay and the second with weight decay 0. Together they hold
  every parameter of \<open>named_parameters\<close> exactly once: nothing is omitted and nothing
  is in both (\<open>named_parameters()\<close> yields every parameter once). A parameter whose
  name contains \<open>bias\<close> or \<open>LayerNorm.weight\<close> is in the zero-decay group, every other
  parameter in the group with the configured decay.
\<close>

theorem configure_optimizers_partition:
  assumes "distinct (map snd named_parameters)"
  shows "\<exists>g_decay g_no_decay.
           param_groups (configure_optimizers self named_parameters) = [g_decay, g_no_decay] \<and>
           group_weight_decay g_decay = weight_decay self \<and>
           group_weight_decay g_no_decay = 0 \<and>
           mset (params g_decay) + mset (params g_no_decay) = mset (map snd named_parameters) \<and>
           set (params g_decay) \<inter> set (params g_no_decay) = {} \<and>
           (\<forall>(n, p) \<in> set named_parameters.
               if sublist ''bias'' n \<or> sublist ''LayerNorm.weight'' n
               then p \<in> set (params g_no_decay) else p \<in> set (params g_decay))"
proof -
  let ?g0 = "\<lparr>params = map snd (filter (\<lambda>(n, p). \<not> any_no_decay n) named_parameters),
              group_weight_decay = weight_decay self\<rparr>"
  let ?g1 = "\<lparr>params = map snd (filter (\<lambda>(n, p). any_no_decay n) named_parameters),
              group_weight_decay = 0\<rparr>"
  have groups: "param_groups (configure_optimizers self named_parameters) = [?g0, ?g1]"
    by (simp add: configure_optimizers_def)
  have all: "mset (params ?g0) + mset (params ?g1) = mset (map snd named_parameters)"
    using mset_groups [of any_no_decay named_parameters] by simp
  have disj: "set (params ?g0) \<inter> set (params ?g1) = {}"
    using groups_disjoint [OF assms, of any_no_decay] by simp
  have mem: "\<forall>(n, p) \<in> set named_parameters.
               if sublist ''bias'' n \<or> sublist ''LayerNorm.weight'' n
               then p \<in> set (params ?g1) else p \<in> set (params ?g0)"
    by (force simp: any_no_decay_iff)
  show ?thesis
    using groups all disj mem by (intro exI [of _ ?g0] exI [of _ ?g1]) simp
qed

theorem configure_optimizers_partition_witness:
  "distinct (map snd [(''bert_model.embeddings.LayerNorm.weight'', 0::nat),
                      (''net.net.0.bias'', 1), (''net.net.0.weight'', 2)]) \<and>
   param_groups (configure_optimizers (example_encoder\<lparr>weight_decay := 1 / 100\<rparr>)
       [(''bert_model.embeddings.LayerNorm.weight'', 0::nat),
        (''net.net.0.bias'', 1), (''net.net.0.weight'', 2)])
     = [\<lparr>params = [2], group_weight_decay = 1 / 100\<rparr>,
        \<lparr>params = [0, 1], group_weight_decay = 0\<rparr>]"
  using configure_optimizers_partition
    [of "[(''bert_model.embeddings.LayerNorm.weight'', 0::nat),
          (''net.net.0.bias'', 1), (''net.net.0.weight'', 2)]"
        "example_encoder\<lparr>weight_decay := 1 / 100\<rparr>"]
  by (simp add: configure_optimizers_def any_no_decay_def no_decay_def example_encoder_def
        sublist_code prefix_code)

subsection \<open>Hard-negative weight zero\<close>

lemma add_zero_row:
  "map (\<lambda>(j, s). map_option (\<lambda>x. x) s) (enumerate 0 row) = (row :: tfloat list)"
  by (rule nth_equalityI) (simp_all add: nth_enumerate_eq option.map_ident)

lemma add_hard_negative_weight_zero: "add_hard_negative_weight 0 S2 = S2"
  unfolding add_hard_negative_weight_def
  by (rule nth_equalityI) (simp_all add: nth_enumerate_eq add_zero_row)

text \<open>
  Claim C9. With hard-negative weight 0 the contrastive loss of any anchor, target and
  negative embeddings is the unweighted in-batch-negative loss: the mean row-wise
  cross-entropy over the concatenated similarity logits with no bias added.
\<close>

theorem ContrastiveLoss_zero_weight:
  "ContrastiveLoss tmp 0 Z_a Z_t Z_n = in_batch_negative_loss tmp Z_a Z_t Z_n"
  by (simp add: ContrastiveLoss_def in_batch_negative_loss_def add_hard_negative_weight_zero)

subsection \<open>Averaging variants of the pooler\<close>

lemmas round32_2p127_num = round32_2p127 [simplified]
lemmas round32_2p128_num = round32_2p128 [simplified]

lemma broadcast_same:
  assumes "\<And>x. x \<in> set xs \<Longrightarrow> f x x = Inr (g x)"
  shows "broadcast f xs xs = Inr (map g xs)"
proof -
  have "sequence_err (map (\<lambda>x. f x x) xs) = Inr (map g xs)"
    by (rule sequence_err_map_Inr) (rule assms)
  then show ?thesis
    by (simp add: broadcast_def zip_same_conv_map comp_def)
qed

lemma add3_same: "add3 h h = Inr (map (map (map (\<lambda>x. fadd x x))) h)"
  unfolding add3_def
  by (intro broadcast_same) simp

lemma half3_double:
  assumes "doubles_fit h"
  shows "half3 (map (map (map (\<lambda>x. fadd x x))) h) = h"
proof -
  have "\<And>row v a. row \<in> set h \<Longrightarrow> v \<in> set row \<Longrightarrow> a \<in> set v \<Longrightarrow>
          fdiv (fadd a a) (Some 2) = a"
    using assms by (intro half_double) (simp add: doubles_fit_def list_all_iff)
  then show ?thesis
    by (simp add: half3_def comp_def map_idI)
qed

lemma foldl_map2_fadd:
  assumes "length v = D" and "\<forall>w \<in> set ws. length w = D"
  shows "foldl (map2 fadd) v ws = map (\<lambda>d. foldl fadd (v ! d) (map (\<lambda>u. u ! d) ws)) [0..<D]"
  using assms
proof (induction ws arbitrary: v)
  case Nil
  then show ?case by (auto simp: map_nth)
next
  case (Cons w ws)
  have lw: "length w = D" using Cons.prems by simp
  have l: "length (map2 fadd v w) = D" using Cons.prems lw by simp
  have "foldl (map2 fadd) (map2 fadd v w) ws
          = map (\<lambda>d. foldl fadd (map2 fadd v w ! d) (map (\<lambda>u. u ! d) ws)) [0..<D]"
    using Cons.IH [OF l] Cons.prems by simp
  also have "\<dots> = map (\<lambda>d. foldl fadd (fadd (v ! d) (w ! d)) (map (\<lambda>u. u ! d) ws)) [0..<D]"
    using Cons.prems lw by (intro map_cong refl) simp
  finally show ?case by simp
qed

lemma vsum_nth:
  assumes "\<forall>v \<in> set row. length v = D"
  shows "vsum D row = map (\<lambda>d. fsum (map (\<lambda>u. u ! d) row)) [0..<D]"
proof (cases row)
  case Nil
  then show ?thesis
    by (simp add: vsum_def fsum_def map_replicate_const)
next
  case (Cons v ws)
  then show ?thesis
    using foldl_map2_fadd [of v D ws] assms by (simp add: vsum_def fsum_def)
qed

lemma scale_ones:
  assumes "length row = L" and "list_all (list_all f32_entry) row"
  shows "map2 (\<lambda>v x. map (\<lambda>a. fmul a (f32_of_int x)) v) row (replicate L 1) = row"
proof (rule nth_equalityI)
  show "length (map2 (\<lambda>v x. map (\<lambda>a. fmul a (f32_of_int x)) v) row (replicate L 1)) = length row"
    using assms(1) by simp
next
  fix j assume "j < length (map2 (\<lambda>v x. map (\<lambda>a. fmul a (f32_of_int x)) v) row (replicate L 1))"
  then have j: "j < L" using assms(1) by simp
  then have "list_all f32_entry (row ! j)"
    using assms by (simp add: list_all_length)
  then have "map (\<lambda>a. fmul a (Some 1)) (row ! j) = row ! j"
    by (intro map_idI) (simp add: list_all_iff fmul_one)
  then show "map2 (\<lambda>v x. map (\<lambda>a. fmul a (f32_of_int x)) v) row (replicate L 1) ! j = row ! j"
    using j assms(1) by simp
qed

lemma mul_mask_Inr:
  assumes "length h = length m" and "\<And>i. i < length h \<Longrightarrow> length (h ! i) = length (m ! i)"
  shows "mul_mask h m = Inr (map2 (map2 (\<lambda>v x. map (\<lambda>a. fmul a (f32_of_int x)) v)) h m)"
  unfolding mul_mask_def
proof (rule broadcast_same_length [OF assms(1)])
  fix hr mr assume "(hr, mr) \<in> set (zip h m)"
  then have "length hr = length mr"
    using assms by (auto simp: in_set_zip)
  then show "broadcast (\<lambda>v x. Inr (map (\<lambda>a. fmul a (f32_of_int x)) v)) hr mr
               = Inr (map2 (\<lambda>v x. map (\<lambda>a. fmul a (f32_of_int x)) v) hr mr)"
    by (rule broadcast_same_length) simp
qed

lemma div_rows_Inr:
  assumes "length num = length den"
  shows "div_rows num den = Inr (map2 (\<lambda>v s. map (\<lambda>a. fdiv a (f32_of_int s)) v) num den)"
  unfolding div_rows_def by (rule broadcast_same_length [OF assms]) simp

lemma mul_mask_ones:
  assumes "shape3 N L D h" and "f32_tensor h"
  shows "mul_mask h (replicate N (replicate L 1)) = Inr h"
proof -
  have len: "length h = N" and rows: "\<And>i. i < N \<Longrightarrow> length (h ! i) = L"
    and ent: "\<And>i. i < N \<Longrightarrow> list_all (list_all f32_entry) (h ! i)"
    using assms by (auto simp: shape3_def shape2_def f32_tensor_def list_all_length)
  have "mul_mask h (replicate N (replicate L 1))
          = Inr (map2 (map2 (\<lambda>v x. map (\<lambda>a. fmul a (f32_of_int x)) v)) h (replicate N (replicate L 1)))"
    using len rows by (intro mul_mask_Inr) simp_all
  also have "map2 (map2 (\<lambda>v x. map (\<lambda>a. fmul a (f32_of_int x)) v)) h (replicate N (replicate L 1)) = h"
    using len rows ent by (rule_tac nth_equalityI) (simp_all add: scale_ones)
  finally show ?thesis .
qed

lemma mean_row:
  assumes "shape2 L D row"
  shows "map (\<lambda>a. fdiv a (f32_of_int (int L))) (vsum D row) = mean_dim1 D row"
proof -
  have all: "\<forall>u \<in> set row. length u = D" and lr: "length row = L"
    using assms by (auto simp: shape2_def list_all_iff)
  show ?thesis
    using lr by (simp add: vsum_nth [OF all] mean_dim1_def comp_def)
qed

lemma avg_all_ones:
  assumes "shape3 N L D (last_hidden_state outputs)" and "hidden_size outputs = D"
    and "f32_tensor (last_hidden_state outputs)" and "pooler_output outputs \<noteq> None"
  shows "Pooler_forward \<lparr>pooler_type = ''avg''\<rparr> (replicate N (replicate L 1)) outputs
           = Inr (map (mean_dim1 D) (last_hidden_state outputs))"
proof -
  let ?h = "last_hidden_state outputs"
  have len: "length ?h = N" and rows: "\<And>i. i < N \<Longrightarrow> shape2 L D (?h ! i)"
    using assms(1) by (auto simp: shape3_def list_all_length)
  have "div_rows (sum_dim1 D ?h) (mask_count (replicate N (replicate L 1)))
          = Inr (map2 (\<lambda>v s. map (\<lambda>a. fdiv a (f32_of_int s)) v) (sum_dim1 D ?h)
                   (mask_count (replicate N (replicate L 1))))"
    using len by (intro div_rows_Inr) (simp add: sum_dim1_def mask_count_def)
  also have "map2 (\<lambda>v s. map (\<lambda>a. fdiv a (f32_of_int s)) v) (sum_dim1 D ?h)
                   (mask_count (replicate N (replicate L 1)))
          = map (\<lambda>row. map (\<lambda>a. fdiv a (f32_of_int (int L))) (vsum D row)) ?h"
    using len
    by (rule_tac nth_equalityI) (simp_all add: sum_dim1_def mask_count_def sum_list_replicate)
  also have "\<dots> = map (mean_dim1 D) ?h"
    using len mean_row [OF rows] by (rule_tac nth_equalityI) simp_all
  finally have "div_rows (sum_dim1 D ?h) (mask_count (replicate N (replicate L 1)))
          = Inr (map (mean_dim1 D) ?h)" .
  then show ?thesis
    using assms(2,4)
    by (simp add: Pooler_forward_def masked_mean_def mul_mask_ones [OF assms(1,3)])
qed

lemma sum_list_unit:
  assumes "k < L"
  shows "sum_list ((replicate L (0::int))[k := 1]) = 1"
proof -
  have "sum_list ((replicate L (0::int))[k := 1])
          = (\<Sum>j = 0..<L. ((replicate L (0::int))[k := 1]) ! j)"
    by (simp add: sum_list_sum_nth)
  also have "\<dots> = (\<Sum>j = 0..<L. if j = k then 1 else 0)"
    by (intro sum.cong refl) (simp add: nth_list_update)
  also have "\<dots> = 1"
    using assms by simp
  finally show ?thesis .
qed

lemma foldl_fadd_zeros:
  assumes "f32_entry a" and "\<forall>z \<in> set zs. z = Some 0"
  shows "foldl fadd a zs = a"
  using assms by (induction zs arbitrary: a) (simp_all add: fadd_zero_right)

lemma foldl_fadd_unit:
  assumes "k < length zs" and "\<forall>j < length zs. j \<noteq> k \<longrightarrow> zs ! j = Some 0"
    and "f32_entry (zs ! k)"
  shows "foldl fadd (Some 0) zs = zs ! k"
  using assms
proof (induction zs arbitrary: k)
  case Nil
  then show ?case by simp
next
  case (Cons z zs)
  show ?case
  proof (cases k)
    case 0
    have z: "f32_entry z" using Cons.prems(3) 0 by simp
    have "\<forall>y \<in> set zs. y = Some 0"
    proof
      fix y assume "y \<in> set zs"
      then obtain i where "i < length zs" "zs ! i = y"
        by (auto simp: in_set_conv_nth)
      then show "y = Some 0"
        using Cons.prems(2) [rule_format, of "Suc i"] 0 by simp
    qed
    then show ?thesis
      using 0 z by (simp add: fadd_zero_left foldl_fadd_zeros)
  next
    case (Suc k')
    have z: "z = Some 0"
      using Cons.prems(2) [rule_format, of 0] Suc by simp
    have "\<forall>j < length zs. j \<noteq> k' \<longrightarrow> zs ! j = Some 0"
    proof (intro allI impI)
      fix j assume "j < length zs" "j \<noteq> k'"
      then show "zs ! j = Some 0"
        using Cons.prems(2) [rule_format, of "Suc j"] Suc by simp
    qed
    then have "foldl fadd (Some 0) zs = zs ! k'"
      using Cons.IH [of k'] Cons.prems(1,3) Suc by simp
    moreover have "fadd (Some 0) (Some 0) = Some 0"
      by (simp add: fadd_zero_left f32_entry_def)
    ultimately show ?thesis
      using z Suc by simp
  qed
qed

lemma fsum_unit:
  assumes "k < length zs" and "\<forall>j < length zs. j \<noteq> k \<longrightarrow> zs ! j = Some 0"
    and "f32_entry (zs ! k)"
  shows "fsum zs = zs ! k"
proof (cases zs)
  case Nil
  then show ?thesis using assms(1) by simp
next
  case (Cons z ws)
  have "foldl fadd (Some 0) zs = zs ! k"
    by (rule foldl_fadd_unit [OF assms])
  moreover have "f32_entry z"
  proof (cases k)
    case 0
    then show ?thesis using assms(3) Cons by simp
  next
    case (Suc k')
    then have "z = Some 0"
      using assms(2) [rule_format, of 0] Cons by simp
    then show ?thesis by (simp add: f32_entry_def)
  qed
  ultimately show ?thesis
    using Cons by (simp add: fsum_def fadd_zero_left)
qed

lemma fmul_unit:
  assumes "f32_entry a" and "j \<noteq> k \<longrightarrow> a \<noteq> None"
  shows "fmul a (f32_of_int (if j = k then 1 else 0)) = (if j = k then a else Some 0)"
  using assms by (cases a) (auto simp: fmul_one fmul_zero)

lemma vsum_unit:
  assumes "shape2 L D row" and "k < L" and "list_all (list_all f32_entry) row"
    and "\<forall>j < L. j \<noteq> k \<longrightarrow> None \<notin> set (row ! j)"
  shows "vsum D (map2 (\<lambda>v x. map (\<lambda>a. fmul a (f32_of_int x)) v) row ((replicate L 0)[k := 1]))
           = row ! k"
proof -
  define s where
    "s = map2 (\<lambda>v x. map (\<lambda>a. fmul a (f32_of_int x)) v) row ((replicate L 0)[k := 1])"
  have lr: "length row = L" and ld: "\<And>j. j < L \<Longrightarrow> length (row ! j) = D"
    using assms(1) by (auto simp: shape2_def list_all_length)
  have ent: "\<And>j d. j < L \<Longrightarrow> d < D \<Longrightarrow> f32_entry (row ! j ! d)"
    using assms(3) lr ld by (simp add: list_all_length)
  have fin: "\<And>j d. j < L \<Longrightarrow> d < D \<Longrightarrow> j \<noteq> k \<Longrightarrow> row ! j ! d \<noteq> None"
  proof -
    fix j d assume h: "j < L" "d < D" "j \<noteq> k"
    then have "row ! j ! d \<in> set (row ! j)" using ld by simp
    then show "row ! j ! d \<noteq> None" using assms(4) h by metis
  qed
  have ls: "length s = L" using lr by (simp add: s_def)
  have nth_s: "\<And>j. j < L \<Longrightarrow>
                 s ! j = map (\<lambda>a. fmul a (f32_of_int (if j = k then 1 else 0))) (row ! j)"
    using lr assms(2) by (simp add: s_def nth_list_update)
  have sd: "\<And>j d. j < L \<Longrightarrow> d < D \<Longrightarrow> s ! j ! d = (if j = k then row ! k ! d else Some 0)"
  proof -
    fix j d assume h: "j < L" "d < D"
    have "s ! j ! d = fmul (row ! j ! d) (f32_of_int (if j = k then 1 else 0))"
      using h ld by (simp only: nth_s nth_map)
    also have "\<dots> = (if j = k then row ! j ! d else Some 0)"
      using ent [OF h] fin [OF h] by (intro fmul_unit) auto
    finally show "s ! j ! d = (if j = k then row ! k ! d else Some 0)" by simp
  qed
  have alld: "\<forall>v \<in> set s. length v = D"
    unfolding all_set_conv_all_nth ls using nth_s ld by simp
  have "vsum D s = map (\<lambda>d. fsum (map (\<lambda>u. u ! d) s)) [0..<D]"
    by (rule vsum_nth [OF alld])
  also have "\<dots> = map (\<lambda>d. row ! k ! d) [0..<D]"
  proof (rule map_cong [OF refl])
    fix d assume "d \<in> set [0..<D]"
    then have d: "d < D" by simp
    define z where "z = map (\<lambda>u. u ! d) s"
    have lz: "length z = L" using ls by (simp add: z_def)
    have zj: "\<And>j. j < L \<Longrightarrow> z ! j = (if j = k then row ! k ! d else Some 0)"
      using ls sd d by (simp add: z_def)
    have "fsum z = z ! k"
    proof (rule fsum_unit)
      show "k < length z" using lz assms(2) by simp
      show "\<forall>j < length z. j \<noteq> k \<longrightarrow> z ! j = Some 0"
        using lz zj by simp
      show "f32_entry (z ! k)"
        using zj [OF assms(2)] ent [OF assms(2) d] by simp
    qed
    then show "fsum (map (\<lambda>u. u ! d) s) = row ! k ! d"
      using zj [OF assms(2)] by (simp add: z_def)
  qed
  also have "\<dots> = row ! k"
    using ld [OF assms(2)] by (metis map_nth)
  finally show ?thesis by (simp add: s_def)
qed

lemma avg_single_position:
  assumes "shape3 N L D (last_hidden_state outputs)" and "f32_tensor (last_hidden_state outputs)"
    and "pooler_output outputs \<noteq> None \<and> hidden_size outputs = D"
    and "shape2 N L attention_mask"
    and "i < N" and "k < L" and "attention_mask ! i = (replicate L 0)[k := 1]"
    and "\<forall>j < L. j \<noteq> k \<longrightarrow> None \<notin> set (last_hidden_state outputs ! i ! j)"
  shows "\<exists>out. Pooler_forward \<lparr>pooler_type = ''avg''\<rparr> attention_mask outputs = Inr out \<and>
               length out = N \<and> out ! i = last_hidden_state outputs ! i ! k"
proof -
  let ?h = "last_hidden_state outputs"
  let ?hm = "map2 (map2 (\<lambda>v x. map (\<lambda>a. fmul a (f32_of_int x)) v)) ?h attention_mask"
  have len: "length ?h = N" and rows: "\<And>i. i < N \<Longrightarrow> shape2 L D (?h ! i)"
    and ent: "\<And>i. i < N \<Longrightarrow> list_all (list_all f32_entry) (?h ! i)"
    using assms(1,2) by (auto simp: shape3_def f32_tensor_def list_all_length)
  have lm: "length attention_mask = N"
    and mrows: "\<And>i. i < N \<Longrightarrow> length (attention_mask ! i) = L"
    using assms(4) by (auto simp: shape2_def list_all_length)
  have hrows: "\<And>i. i < N \<Longrightarrow> length (?h ! i) = L"
    using rows by (simp add: shape2_def)
  have mm: "mul_mask ?h attention_mask = Inr ?hm"
    using len lm hrows mrows by (intro mul_mask_Inr) simp_all
  let ?out = "map2 (\<lambda>v s. map (\<lambda>a. fdiv a (f32_of_int s)) v) (sum_dim1 D ?hm)
                (mask_count attention_mask)"
  have dr: "div_rows (sum_dim1 D ?hm) (mask_count attention_mask) = Inr ?out"
    using len lm by (intro div_rows_Inr) (simp add: sum_dim1_def mask_count_def)
  have res: "Pooler_forward \<lparr>pooler_type = ''avg''\<rparr> attention_mask outputs = Inr ?out"
    using assms(3) by (simp add: Pooler_forward_def masked_mean_def mm dr)
  have lo: "length ?out = N"
    using len lm by (simp add: sum_dim1_def mask_count_def)
  have "?out ! i = map (\<lambda>a. fdiv a (f32_of_int (sum_list (attention_mask ! i))))
                     (vsum D (map2 (\<lambda>v x. map (\<lambda>a. fmul a (f32_of_int x)) v) (?h ! i)
                              (attention_mask ! i)))"
    using len lm assms(5) by (simp add: sum_dim1_def mask_count_def)
  also have "\<dots> = map (\<lambda>a. fdiv a (Some 1)) (?h ! i ! k)"
    using vsum_unit [OF rows [OF assms(5)] assms(6) ent [OF assms(5)] assms(8)]
      sum_list_unit [OF assms(6)]
    by (simp add: assms(7))
  also have "\<dots> = ?h ! i ! k"
  proof -
    have "list_all f32_entry (?h ! i ! k)"
      using ent [OF assms(5)] hrows [OF assms(5)] assms(6) by (simp add: list_all_length)
    then show ?thesis
      by (intro map_idI) (simp add: list_all_iff fdiv_one)
  qed
  finally have "?out ! i = ?h ! i ! k" .
  with res lo show ?thesis by blast
qed

text \<open>
  Claim C5, as stated: under an all-ones mask the \<open>avg\<close> variant returns the unweighted
  mean of the token vectors, and under a mask with the single unmasked position \<open>k\<close>
  the hidden state at \<open>k\<close>, for every hidden-state tensor. Both fail in float32: the sum
  of the two tokens \<open>2^127\<close> overflows, so the pooled value is infinite where the mean is
  \<open>2^127\<close>; and a non-finite hidden state at a masked position (times 0) makes the
  pooled row non-finite where the hidden state at \<open>k\<close> is 1. For a backbone whose
  outputs have no \<open>pooler_output\<close> the pooler raises before it pools.
\<close>

theorem avg_exact_mean_fails_example:
  "shape3 1 2 1 [[[Some (2 ^ 127)], [Some (2 ^ 127)]]] \<and>
   f32_tensor [[[Some (2 ^ 127)], [Some (2 ^ 127)]]] \<and>
   Pooler_forward \<lparr>pooler_type = ''avg''\<rparr> [[1, 1]]
      \<lparr>last_hidden_state = [[[Some (2 ^ 127)], [Some (2 ^ 127)]]], pooler_output = Some [],
       hidden_states = [], hidden_size = 1\<rparr>
     = Inr [[None]] \<and>
   map unweighted_mean [[[Some (2 ^ 127)], [Some (2 ^ 127)]]] = [[Some (2 ^ 127)]] \<and>
   Pooler_forward \<lparr>pooler_type = ''avg''\<rparr> [[0, 1]]
      \<lparr>last_hidden_state = [[[None], [Some 1]]], pooler_output = Some [], hidden_states = [],
       hidden_size = 1\<rparr>
     = Inr [[None]] \<and>
   [[[None], [Some 1]]] ! 0 ! 1 = [Some (1::real)] \<and>
   Pooler_forward \<lparr>pooler_type = ''avg''\<rparr> [[1]]
      \<lparr>last_hidden_state = [[[Some 1]]], pooler_output = None, hidden_states = [],
       hidden_size = 1\<rparr>
     = Inl (AttributeError ''pooler_output'')"
  by (simp add: shape3_def shape2_def f32_tensor_def f32_entry_def is_f32_def
        round32_2p127_num round32_2p128_num Pooler_forward_def masked_mean_def mul_mask_def
        div_rows_def sum_dim1_def vsum_def mask_count_def broadcast_def fadd_def fmul_def
        fdiv_def unweighted_mean_def tdiv_def)

text \<open>
  Claim C5, amended. For float32 hidden states of shape \<open>[N, L, D]\<close>, from a backbone
  whose outputs have a \<open>pooler_output\<close>: under the all-ones mask the \<open>avg\<close> variant
  returns the mean of the token vectors as float32 computes it, their float32 sum
  divided by \<open>L\<close>; and under a mask of shape \<open>[N, L]\<close> whose row \<open>i\<close>
  is 1 at the single position \<open>k\<close> and 0 elsewhere, row \<open>i\<close> of the result is the hidden
  state of example \<open>i\<close> at position \<open>k\<close>, provided the hidden states of that example at
  the masked positions are finite.
\<close>

theorem avg_float_mean_and_single_position:
  assumes "shape3 N L D (last_hidden_state outputs)" and "hidden_size outputs = D"
    and "f32_tensor (last_hidden_state outputs)" and "pooler_output outputs \<noteq> None"
  shows "Pooler_forward \<lparr>pooler_type = ''avg''\<rparr> (replicate N (replicate L 1)) outputs
           = Inr (map (mean_dim1 D) (last_hidden_state outputs)) \<and>
         (\<forall>attention_mask i k.
            shape2 N L attention_mask \<and> i < N \<and> k < L \<and>
            attention_mask ! i = (replicate L 0)[k := 1] \<and>
            (\<forall>j < L. j \<noteq> k \<longrightarrow> None \<notin> set (last_hidden_state outputs ! i ! j)) \<longrightarrow>
            (\<exists>out. Pooler_forward \<lparr>pooler_type = ''avg''\<rparr> attention_mask outputs = Inr out \<and>
                   length out = N \<and>
                   out ! i = last_hidden_state outputs ! i ! k))"
  using avg_all_ones [OF assms] avg_single_position [OF assms(1,3) conjI [OF assms(4,2)]]
  by blast

theorem avg_float_mean_and_single_position_witness:
  "shape3 1 2 2 (last_hidden_state
      \<lparr>last_hidden_state = [[[Some 1, Some 2], [Some 3, Some 4]]], pooler_output = Some [],
       hidden_states = [], hidden_size = 2\<rparr>) \<and>
   f32_tensor [[[Some 1, Some 2], [Some 3, Some 4]]] \<and>
   Pooler_forward \<lparr>pooler_type = ''avg''\<rparr> [[1, 1]]
      \<lparr>last_hidden_state = [[[Some 1, Some 2], [Some 3, Some 4]]], pooler_output = Some [],
       hidden_states = [], hidden_size = 2\<rparr>
     = Inr [[Some 2, Some 3]] \<and>
   shape2 1 2 [[0, 1 :: int]] \<and>
   Pooler_forward \<lparr>pooler_type = ''avg''\<rparr> [[0, 1]]
      \<lparr>last_hidden_state = [[[Some 1, Some 2], [Some 3, Some 4]]], pooler_output = Some [],
       hidden_states = [], hidden_size = 2\<rparr>
     = Inr [[Some 3, Some 4]]"
proof -
  let ?o = "\<lparr>last_hidden_state = [[[Some 1, Some 2], [Some 3, Some (4 :: real)]]],
             pooler_output = Some [], hidden_states = [], hidden_size = 2\<rparr>"
  have h1: "shape3 1 2 2 (last_hidden_state ?o)"
    by (simp add: shape3_def shape2_def)
  have h2: "hidden_size ?o = 2" by simp
  have h3: "f32_tensor (last_hidden_state ?o)"
    by (simp add: f32_tensor_def f32_entry_def is_f32_numeral)
  have h4: "pooler_output ?o \<noteq> None" by simp
  have m: "shape2 1 2 [[0, 1 :: int]]"
    by (simp add: shape2_def)
  have ones: "replicate 1 (replicate 2 (1::int)) = [[1, 1]]"
    by (simp add: numeral_2_eq_2)
  have unit: "[[0, 1 :: int]] ! 0 = (replicate 2 0)[1 := 1]"
    by (simp add: numeral_2_eq_2)
  have fin: "\<forall>j < 2. j \<noteq> 1 \<longrightarrow> None \<notin> set (last_hidden_state ?o ! 0 ! j)"
    by (simp add: numeral_2_eq_2 less_Suc_eq)
  note T = avg_float_mean_and_single_position [OF h1 h2 h3 h4]
  have a: "Pooler_forward \<lparr>pooler_type = ''avg''\<rparr> [[1, 1]] ?o
             = Inr (map (mean_dim1 2) (last_hidden_state ?o))"
    using conjunct1 [OF T] unfolding ones .
  have b: "\<exists>out. Pooler_forward \<lparr>pooler_type = ''avg''\<rparr> [[0, 1]] ?o = Inr out \<and>
                  length out = 1 \<and> out ! 0 = last_hidden_state ?o ! 0 ! 1"
    using conjunct2 [OF T, rule_format, of "[[0, 1]]" 0 1] m unit fin by simp
  have um: "map (mean_dim1 2) (last_hidden_state ?o) = [[Some 2, Some 3]]"
    by (simp add: mean_dim1_def fsum_def fadd_def fdiv_def f32_of_int_def upt_rec
          round32_numeral)
  have a': "Pooler_forward \<lparr>pooler_type = ''avg''\<rparr> [[1, 1]] ?o = Inr [[Some 2, Some 3]]"
    using a unfolding um .
  from b obtain out where o: "Pooler_forward \<lparr>pooler_type = ''avg''\<rparr> [[0, 1]] ?o = Inr out"
    "length out = 1" "out ! 0 = [Some 3, Some 4]"
    by auto
  from o(2,3) have "out = [[Some 3, Some 4]]"
    by (cases out) auto
  with o(1) have b': "Pooler_forward \<lparr>pooler_type = ''avg''\<rparr> [[0, 1]] ?o = Inr [[Some 3, Some 4]]"
    by simp
  have h3': "f32_tensor [[[Some 1, Some 2], [Some 3, Some 4]]]"
    using h3 by simp
  from h1 h3' a' m b' show ?thesis by (intro conjI)
qed

text \<open>
  Claim C6, as stated: whenever the last two per-layer hidden states are equal, the
  \<open>avg_top2\<close> variant returns what the \<open>avg\<close> variant returns on that layer. It fails
  in float32 when the sum of the two layers overflows: for the hidden state \<open>2^127\<close>,
  a float32 value, \<open>avg_top2\<close> returns an infinite value and \<open>avg\<close> returns \<open>2^127\<close>.
\<close>

theorem avg_top2_overflow_example:
  "is_f32 (2 ^ 127) \<and>
   getitem [[[[Some (2 ^ 127)]]], [[[Some (2 ^ 127)]]]] (- 2) = Inr [[[Some (2 ^ 127)]]] \<and>
   getitem [[[[Some (2 ^ 127)]]], [[[Some (2 ^ 127)]]]] (- 1) = Inr [[[Some (2 ^ 127)]]] \<and>
   Pooler_forward \<lparr>pooler_type = ''avg_top2''\<rparr> [[1]]
      \<lparr>last_hidden_state = [[[Some (2 ^ 127)]]], pooler_output = Some [],
       hidden_states = [[[[Some (2 ^ 127)]]], [[[Some (2 ^ 127)]]]], hidden_size = 1\<rparr>
     = Inr [[None]] \<and>
   Pooler_forward \<lparr>pooler_type = ''avg''\<rparr> [[1]]
      \<lparr>last_hidden_state = [[[Some (2 ^ 127)]]], pooler_output = Some [],
       hidden_states = [[[[Some (2 ^ 127)]]], [[[Some (2 ^ 127)]]]], hidden_size = 1\<rparr>
     = Inr [[Some (2 ^ 127)]]"
  by (simp add: is_f32_def round32_2p127_num round32_2p128_num getitem_def Pooler_forward_def
        add3_def half3_def masked_mean_def mul_mask_def div_rows_def sum_dim1_def vsum_def
        mask_count_def broadcast_def fadd_def fmul_def fdiv_def)

text \<open>
  Claim C6, amended. When the last two per-layer hidden states are the same tensor \<open>h\<close>
  and no entry of \<open>h\<close> overflows float32 when doubled, the \<open>avg_top2\<close> variant returns
  what the \<open>avg\<close> variant returns on \<open>h\<close>; when the first and the last per-layer hidden
  states are the same such tensor \<open>h\<close>, so does \<open>avg_first_last\<close>.
\<close>

theorem avg_top2_first_last_reduce_to_avg:
  assumes "doubles_fit h"
  shows
   "(getitem (hidden_states outputs) (- 2) = Inr h \<and> getitem (hidden_states outputs) (- 1) = Inr h
      \<longrightarrow> Pooler_forward \<lparr>pooler_type = ''avg_top2''\<rparr> attention_mask outputs
            = Pooler_forward \<lparr>pooler_type = ''avg''\<rparr> attention_mask
                (outputs\<lparr>last_hidden_state := h\<rparr>)) \<and>
    (getitem (hidden_states outputs) 0 = Inr h \<and> getitem (hidden_states outputs) (- 1) = Inr h
      \<longrightarrow> Pooler_forward \<lparr>pooler_type = ''avg_first_last''\<rparr> attention_mask outputs
            = Pooler_forward \<lparr>pooler_type = ''avg''\<rparr> attention_mask
                (outputs\<lparr>last_hidden_state := h\<rparr>))"
  by (simp add: Pooler_forward_def add3_same half3_double [OF assms])

theorem avg_top2_first_last_reduce_to_avg_witness:
  "doubles_fit [[[Some 1, Some 2], [Some 3, Some 4]]] \<and>
   getitem [[[[Some 1, Some 2], [Some 3, Some 4]]], [[[Some 1, Some 2], [Some 3, Some 4]]]] (- 2)
     = Inr [[[Some 1, Some 2], [Some 3, Some 4]]] \<and>
   getitem [[[[Some 1, Some 2], [Some 3, Some 4]]], [[[Some 1, Some 2], [Some 3, Some 4]]]] (- 1)
     = Inr [[[Some 1, Some 2], [Some 3, Some 4]]] \<and>
   getitem [[[[Some 1, Some 2], [Some 3, Some 4]]], [[[Some 1, Some 2], [Some 3, Some 4]]]] 0
     = Inr [[[Some 1, Some 2], [Some 3, Some 4]]] \<and>
   Pooler_forward \<lparr>pooler_type = ''avg_top2''\<rparr> [[1, 1]]
      \<lparr>last_hidden_state = [[[Some 9, Some 9], [Some 9, Some 9]]], pooler_output = Some [],
       hidden_states = [[[[Some 1, Some 2], [Some 3, Some 4]]],
                        [[[Some 1, Some 2], [Some 3, Some 4]]]],
       hidden_size = 2\<rparr>
     = Pooler_forward \<lparr>pooler_type = ''avg''\<rparr> [[1, 1]]
         \<lparr>last_hidden_state = [[[Some 1, Some 2], [Some 3, Some 4]]], pooler_output = Some [],
          hidden_states = [[[[Some 1, Some 2], [Some 3, Some 4]]],
                           [[[Some 1, Some 2], [Some 3, Some 4]]]],
       hidden_size = 2\<rparr> \<and>
   Pooler_forward \<lparr>pooler_type = ''avg_first_last''\<rparr> [[1, 1]]
      \<lparr>last_hidden_state = [[[Some 9, Some 9], [Some 9, Some 9]]], pooler_output = Some [],
       hidden_states = [[[[Some 1, Some 2], [Some 3, Some 4]]],
                        [[[Some 1, Some 2], [Some 3, Some 4]]]],
       hidden_size = 2\<rparr>
     = Pooler_forward \<lparr>pooler_type = ''avg''\<rparr> [[1, 1]]
         \<lparr>last_hidden_state = [[[Some 1, Some 2], [Some 3, Some 4]]], pooler_output = Some [],
          hidden_states = [[[[Some 1, Some 2], [Some 3, Some 4]]],
                           [[[Some 1, Some 2], [Some 3, Some 4]]]],
       hidden_size = 2\<rparr>"
proof -
  have h: "doubles_fit [[[Some 1, Some 2], [Some 3, Some 4]]]"
    by (simp add: doubles_fit_def double_fits_def is_f32_numeral fmax32_def)
  show ?thesis
    using h avg_top2_first_last_reduce_to_avg
      [OF h, of "\<lparr>last_hidden_state = [[[Some 9, Some 9], [Some 9, Some 9]]],
                  pooler_output = Some [],
                  hidden_states = [[[[Some 1, Some 2], [Some 3, Some 4]]],
                                   [[[Some 1, Some 2], [Some 3, Some 4]]]],
       hidden_size = 2\<rparr>" "[[1, 1]]"]
    by (simp add: getitem_def)
qed

end
